theory Spec2Isabelle
  imports Complex_Main "HOL-Library.Word" "HOL-Library.AList"
begin

section \<open>Common data: keys, time, errors, panics\<close>

text \<open>
  \<^verbatim>\<open>types.PublicKey\<close> is a 32-byte array. \<^verbatim>\<open>time.Time\<close> and \<^verbatim>\<open>time.Duration\<close>
  are counted in nanoseconds; \<^verbatim>\<open>t.Add(d)\<close> is addition and \<^verbatim>\<open>t.Before(u)\<close> is \<open><\<close>.
\<close>

type_synonym publicKey = "256 word"
type_synonym hash256 = "256 word"
type_synonym time = int
type_synonym duration = int
type_synonym bytes = "8 word list"

text \<open>
  Go's \<^verbatim>\<open>error\<close> values that the modelled code creates itself are constructors of their
  own; every other error (transport failures, host errors) is an \<open>ErrorString\<close>. The
  \<^verbatim>\<open>fmt.Errorf\<close> of \<^verbatim>\<open>slabDownload.finish\<close> keeps its five arguments: completed,
  inflight, launched, downloaders and the wrapped \<^verbatim>\<open>HostErrorSet\<close> (a slice of
  \<^verbatim>\<open>HostError{HostKey, Err}\<close>).
\<close>

datatype error =
    ErrorString string
  | TimeoutWhileBlockingForPricetableUpdate
  | NoRequestGiven
  | NoDownloaderForHost publicKey
  | FailedToDownloadSlab int "64 word" "64 word" int "(publicKey \<times> error) list"

type_synonym hostError = "publicKey \<times> error"
type_synonym hostErrorSet = "hostError list"

text \<open>Run-time panics of the Go code that the model keeps as values.\<close>

datatype panic =
    NilPointerDereference
  | CloseOfClosedChannel
  | IndexOutOfRange
  | OverflowDetected

text \<open>A channel that is only ever closed (\<^verbatim>\<open>chan struct{}\<close> used as a signal).\<close>

datatype chan = Open | Closed

fun close_chan :: "chan \<Rightarrow> panic + chan" where
  "close_chan Open = Inr Closed"
| "close_chan Closed = Inl CloseOfClosedChannel"

section \<open>The price-table cache (worker/pricetable.go)\<close>

text \<open>\<^verbatim>\<open>const priceTableValidityLeeway = 30 * time.Second\<close>, in nanoseconds.\<close>

definition priceTableValidityLeeway :: duration where
  "priceTableValidityLeeway = 30 * 1000000000"

text \<open>
  Of \<^verbatim>\<open>rhpv3.HostPriceTable\<close> the cache reads only \<^verbatim>\<open>Validity\<close>; \<open>UID\<close> stands for
  the remaining fields. \<open>zeroHostPriceTable\<close> is \<^verbatim>\<open>rhpv3.HostPriceTable{}\<close>.
\<close>

record hostPriceTable =
  UID :: nat
  Validity :: duration

definition zeroHostPriceTable :: hostPriceTable where
  "zeroHostPriceTable = \<lparr>UID = 0, Validity = 0\<rparr>"

text \<open>
  \<^verbatim>\<open>priceTableUpdate\<close> objects are shared between the caller that performs a refresh
  and the callers that wait for it, so they live in a store, addressed by \<open>nat\<close>.
  \<open>upd_done\<close> is the channel \<^verbatim>\<open>done\<close>; \<open>upd_pt\<close> is the pointer \<^verbatim>\<open>pt\<close>, \<open>None\<close> for nil.
\<close>

record priceTableUpdate =
  upd_err :: "error option"
  upd_done :: chan
  upd_pt :: "hostPriceTable option"

record priceTable =
  pt_pt :: "hostPriceTable option"
  pt_hk :: publicKey
  pt_expiry :: time
  pt_ongoingUpdate :: "nat option"

record priceTables =
  tables :: "publicKey \<rightharpoonup> priceTable"
  updates :: "nat \<rightharpoonup> priceTableUpdate"
  nextUpdate :: nat

definition newPriceTables :: priceTables where
  "newPriceTables = \<lparr>tables = Map.empty, updates = Map.empty, nextUpdate = 0\<rparr>"

text \<open>\<^verbatim>\<open>priceTables.priceTable\<close>: look the entry up, creating it when it is missing.\<close>

definition priceTable :: "publicKey \<Rightarrow> priceTables \<Rightarrow> priceTable \<times> priceTables" where
  "priceTable hk pts =
     (case tables pts hk of
        Some pt \<Rightarrow> (pt, pts)
      | None \<Rightarrow>
          (let pt = \<lparr>pt_pt = None, pt_hk = hk, pt_expiry = 0, pt_ongoingUpdate = None\<rparr>
           in (pt, pts\<lparr>tables := (tables pts)(hk \<mapsto> pt)\<rparr>)))"

text \<open>
  \<^verbatim>\<open>priceTables.PriceTable\<close>; \<open>now\<close> is the value of \<^verbatim>\<open>time.Now()\<close>. The source reads
  \<^verbatim>\<open>time.Now().Before(pt.expiry.Add(priceTableValidityLeeway))\<close>.
\<close>

definition PriceTable ::
  "time \<Rightarrow> publicKey \<Rightarrow> priceTables \<Rightarrow> (hostPriceTable \<times> bool) \<times> priceTables" where
  "PriceTable now hk pts =
     (let (pt, pts') = priceTable hk pts
      in case pt_pt pt of
           None \<Rightarrow> ((zeroHostPriceTable, False), pts')
         | Some hpt \<Rightarrow> ((hpt, now < pt_expiry pt + priceTableValidityLeeway), pts'))"

text \<open>
  \<^verbatim>\<open>priceTables.Update\<close> runs in three critical sections, each one function here.

  \<open>Update_begin\<close> is the part up to the first \<^verbatim>\<open>pt.mu.Unlock()\<close>: it returns the
  address of the ongoing update and \<^verbatim>\<open>performUpdate\<close>.
\<close>

definition Update_begin :: "publicKey \<Rightarrow> priceTables \<Rightarrow> (nat \<times> bool) \<times> priceTables" where
  "Update_begin hk pts =
     (let (pt, pts1) = priceTable hk pts
      in case pt_ongoingUpdate pt of
           Some a \<Rightarrow> ((a, False), pts1)
         | None \<Rightarrow>
             (let a = nextUpdate pts1;
                  ongoing = \<lparr>upd_err = None, upd_done = Open, upd_pt = None\<rparr>
              in ((a, True),
                  pts1\<lparr>tables := (tables pts1)(hk \<mapsto> pt\<lparr>pt_ongoingUpdate := Some a\<rparr>),
                       updates := (updates pts1)(a \<mapsto> ongoing),
                       nextUpdate := Suc a\<rparr>)))"

text \<open>
  \<open>Update_await\<close> is the branch \<^verbatim>\<open>if !performUpdate\<close>. \<open>ctxDone\<close> says whether
  \<^verbatim>\<open>ctx.Done()\<close> is ready; when both cases of the \<^verbatim>\<open>select\<close> are ready Go picks
  one, here by \<open>pickCtx\<close>. It blocks while neither is ready.
\<close>

datatype 'a outcome = Blocked | Panics panic | Returns 'a

definition Update_await ::
  "bool \<Rightarrow> bool \<Rightarrow> nat \<Rightarrow> priceTables \<Rightarrow> (hostPriceTable \<times> error option) outcome" where
  "Update_await ctxDone pickCtx a pts =
     (case updates pts a of
        None \<Rightarrow> Panics NilPointerDereference
      | Some ongoing \<Rightarrow>
          if ctxDone \<and> (upd_done ongoing = Open \<or> pickCtx)
          then Returns (zeroHostPriceTable, Some TimeoutWhileBlockingForPricetableUpdate)
          else if upd_done ongoing = Open then Blocked
          else (case upd_err ongoing of
                  Some e \<Rightarrow> Returns (zeroHostPriceTable, Some e)
                | None \<Rightarrow>
                    (case upd_pt ongoing of
                       None \<Rightarrow> Panics NilPointerDereference
                     | Some hpt \<Rightarrow> Returns (hpt, None))))"

text \<open>
  \<open>Update_finish\<close> is the part after \<^verbatim>\<open>pts.withTransport\<close> has returned \<open>(hpt, err)\<close>:
  from the second \<^verbatim>\<open>pt.mu.Lock()\<close> to the return. \<open>now\<close> is \<^verbatim>\<open>time.Now()\<close>.
\<close>

definition Update_finish ::
  "time \<Rightarrow> publicKey \<Rightarrow> nat \<Rightarrow> hostPriceTable \<times> error option \<Rightarrow> priceTables
     \<Rightarrow> (hostPriceTable \<times> error option) outcome \<times> priceTables" where
  "Update_finish now hk a res pts =
     (let (hpt, err) = res;
          (pt, pts1) = priceTable hk pts;
          pt1 = (if err = None
                 then pt\<lparr>pt_pt := Some hpt, pt_expiry := now + Validity hpt\<rparr>
                 else pt)
      in case updates pts1 a of
           None \<Rightarrow> (Panics NilPointerDereference, pts1)
         | Some ongoing \<Rightarrow>
             (case close_chan (upd_done ongoing) of
                Inl p \<Rightarrow> (Panics p, pts1)
              | Inr c \<Rightarrow>
                  (Returns (hpt, err),
                   pts1\<lparr>tables := (tables pts1)(hk \<mapsto> pt1\<lparr>pt_ongoingUpdate := None\<rparr>),
                        updates := (updates pts1)(a \<mapsto> ongoing\<lparr>upd_err := err, upd_done := c\<rparr>)\<rparr>)))"

section \<open>Objects, slabs and sectors (package object)\<close>

text \<open>
  \<^verbatim>\<open>object.Sector\<close>, \<^verbatim>\<open>object.Slab\<close> and \<^verbatim>\<open>object.SlabSlice\<close> as the download code
  reads them. The encryption key is opaque here.
\<close>

record sector =
  Host :: publicKey
  Root :: hash256

record slab =
  Key :: nat
  MinShards :: "8 word"
  Shards :: "sector list"

record slabSlice =
  Slab :: slab
  Offset :: "32 word"
  Length :: "32 word"

section \<open>Go's int\<close>

text \<open>
  \<^verbatim>\<open>int\<close> is 64 bits wide. A value of type \<^verbatim>\<open>int\<close> is modelled by the integer it
  denotes, and every arithmetic result is wrapped into the signed range by \<open>wrap64\<close>.
  \<open>int_of_uint64\<close> is the conversion \<^verbatim>\<open>int(x)\<close> of a \<^verbatim>\<open>uint64\<close>, which keeps the
  bits and reads them as two's complement.
\<close>

definition wrap64 :: "int \<Rightarrow> int" where
  "wrap64 i = sint (word_of_int i :: 64 word)"

definition int_of_uint64 :: "64 word \<Rightarrow> int" where
  "int_of_uint64 w = sint w"

section \<open>Requests, responses, downloaders and the manager\<close>

record sectorDownloadReq =
  req_length :: "32 word"
  req_offset :: "32 word"
  req_root :: hash256
  req_hk :: publicKey
  req_overdrive :: bool
  req_sectorIndex :: int

text \<open>\<open>resp_sector\<close> is a byte slice: \<open>None\<close> is the nil slice.\<close>

record sectorDownloadResp =
  resp_overdrive :: bool
  resp_hk :: publicKey
  resp_sectorIndex :: int
  resp_sector :: "bytes option"
  resp_err :: "error option"

text \<open>
  The responses \<^verbatim>\<open>sectorDownloadReq.succeed\<close> and \<^verbatim>\<open>sectorDownloadReq.fail\<close> send on
  the response channel. \<^verbatim>\<open>fail\<close> leaves \<^verbatim>\<open>sectorIndex\<close> and \<^verbatim>\<open>sector\<close> at their
  zero values.
\<close>

definition succeed :: "sectorDownloadReq \<Rightarrow> bytes \<Rightarrow> sectorDownloadResp" where
  "succeed req sector =
     \<lparr>resp_overdrive = req_overdrive req, resp_hk = req_hk req,
      resp_sectorIndex = req_sectorIndex req, resp_sector = Some sector, resp_err = None\<rparr>"

definition fail :: "sectorDownloadReq \<Rightarrow> error \<Rightarrow> sectorDownloadResp" where
  "fail req err =
     \<lparr>resp_overdrive = req_overdrive req, resp_hk = req_hk req,
      resp_sectorIndex = 0, resp_sector = None, resp_err = Some err\<rparr>"

text \<open>
  A \<^verbatim>\<open>downloader\<close>. The type \<^verbatim>\<open>dataPoints\<close> of the latency estimator is declared
  outside the files at hand, so it is the type parameter \<open>'dp\<close>, and its method
  \<^verbatim>\<open>Track\<close> is a parameter of \<open>trackFailure\<close> below. \<open>d_signalWork\<close> says whether the
  one-slot channel \<^verbatim>\<open>signalWorkChan\<close> holds a token.
\<close>

record 'dp downloader =
  d_statsSectorDownloadEstimateInMS :: 'dp
  d_signalWork :: bool
  d_stopChan :: chan
  d_consecutiveFailures :: "64 word"
  d_queue :: "sectorDownloadReq list"
  d_numDownloads :: "64 word"

text \<open>
  \<^verbatim>\<open>downloader.enqueue\<close>: append the request and signal work without blocking.
\<close>

definition enqueue :: "sectorDownloadReq \<Rightarrow> 'dp downloader \<Rightarrow> 'dp downloader" where
  "enqueue download d = d\<lparr>d_queue := d_queue d @ [download], d_signalWork := True\<rparr>"

text \<open>
  \<^verbatim>\<open>downloader.trackFailure\<close>. The four classifiers \<^verbatim>\<open>isBalanceInsufficient\<close>,
  \<^verbatim>\<open>isPriceTableExpired\<close>, \<^verbatim>\<open>isPriceTableNotFound\<close> and \<^verbatim>\<open>isSectorNotFound\<close> are
  declared outside the files at hand and are parameters, as is \<^verbatim>\<open>dataPoints.Track\<close>.
  \<^verbatim>\<open>time.Hour.Milliseconds()\<close> is 3600000, which \<^verbatim>\<open>float64\<close> represents exactly.
\<close>

record classifiers =
  isBalanceInsufficient :: "error \<Rightarrow> bool"
  isPriceTableExpired :: "error \<Rightarrow> bool"
  isPriceTableNotFound :: "error \<Rightarrow> bool"
  isSectorNotFound :: "error \<Rightarrow> bool"

definition hourInMilliseconds :: real where
  "hourInMilliseconds = 3600000"

definition trackFailure ::
  "classifiers \<Rightarrow> (real \<Rightarrow> 'dp \<Rightarrow> 'dp) \<Rightarrow> error option \<Rightarrow> 'dp downloader \<Rightarrow> 'dp downloader" where
  "trackFailure cl Track err d =
     (case err of
        None \<Rightarrow> d\<lparr>d_consecutiveFailures := 0\<rparr>
      | Some e \<Rightarrow>
          if isBalanceInsufficient cl e \<or> isPriceTableExpired cl e
             \<or> isPriceTableNotFound cl e \<or> isSectorNotFound cl e
          then d
          else d\<lparr>d_consecutiveFailures := d_consecutiveFailures d + 1,
                 d_statsSectorDownloadEstimateInMS :=
                   Track hourInMilliseconds (d_statsSectorDownloadEstimateInMS d)\<rparr>)"

text \<open>
  The \<^verbatim>\<open>downloadManager\<close>: its overdrive bound, its stop channel and its map of
  downloaders. The map is an association list with distinct keys; Go iterates over a map
  in an unspecified order, here the order of the list.
\<close>

record 'dp downloadManager =
  m_maxOverdrive :: "64 word"
  m_stopChan :: chan
  m_downloaders :: "(publicKey \<times> 'dp downloader) list"

text \<open>The loop \<^verbatim>\<open>for _, d := range mgr.downloaders { close(d.stopChan) }\<close>.\<close>

fun closeDownloaders ::
  "(publicKey \<times> 'dp downloader) list \<Rightarrow> panic + (publicKey \<times> 'dp downloader) list" where
  "closeDownloaders [] = Inr []"
| "closeDownloaders ((hk, d) # ds) =
     (case close_chan (d_stopChan d) of
        Inl p \<Rightarrow> Inl p
      | Inr c \<Rightarrow>
          (case closeDownloaders ds of
             Inl p \<Rightarrow> Inl p
           | Inr ds' \<Rightarrow> Inr ((hk, d\<lparr>d_stopChan := c\<rparr>) # ds')))"

text \<open>\<^verbatim>\<open>downloadManager.Stop\<close>.\<close>

definition Stop :: "'dp downloadManager \<Rightarrow> panic + 'dp downloadManager" where
  "Stop mgr =
     (case close_chan (m_stopChan mgr) of
        Inl p \<Rightarrow> Inl p
      | Inr c \<Rightarrow>
          (case closeDownloaders (m_downloaders mgr) of
             Inl p \<Rightarrow> Inl p
           | Inr ds \<Rightarrow> Inr (mgr\<lparr>m_stopChan := c, m_downloaders := ds\<rparr>)))"

text \<open>\<^verbatim>\<open>downloadManager.numDownloaders\<close>.\<close>

definition numDownloaders :: "'dp downloadManager \<Rightarrow> int" where
  "numDownloaders mgr = int (length (m_downloaders mgr))"

text \<open>
  \<^verbatim>\<open>downloadManager.launch\<close>: resolve the downloader of the request's host and
  enqueue the request there.
\<close>

fun enqueueAt ::
  "publicKey \<Rightarrow> sectorDownloadReq \<Rightarrow> (publicKey \<times> 'dp downloader) list
     \<Rightarrow> (publicKey \<times> 'dp downloader) list" where
  "enqueueAt hk req [] = []"
| "enqueueAt hk req ((k, d) # ds) =
     (if k = hk then (k, enqueue req d) # ds else (k, d) # enqueueAt hk req ds)"

definition mgr_launch ::
  "sectorDownloadReq \<Rightarrow> 'dp downloadManager \<Rightarrow> error option \<times> 'dp downloadManager" where
  "mgr_launch req mgr =
     (case map_of (m_downloaders mgr) (req_hk req) of
        None \<Rightarrow> (Some (NoDownloaderForHost (req_hk req)), mgr)
      | Some downloader \<Rightarrow>
          (None, mgr\<lparr>m_downloaders := enqueueAt (req_hk req) req (m_downloaders mgr)\<rparr>))"

section \<open>One slab download\<close>

record sectorInfo =
  si_sector :: sector
  si_index :: int

text \<open>
  The fields of \<^verbatim>\<open>slabDownload\<close> that its methods read and write. The pointer
  \<^verbatim>\<open>mgr\<close> is the manager passed to each function. \<open>s_hostToSectors\<close> is a map and is
  kept as an association list with distinct keys; a missing key reads as the nil slice.
  In \<open>s_sectors\<close>, \<open>None\<close> is the nil slice of a shard that has not arrived.
\<close>

record slabDownload =
  s_index :: int
  s_minShards :: int
  s_length :: "32 word"
  s_offset :: "32 word"
  s_numCompleted :: int
  s_numInflight :: "64 word"
  s_numLaunched :: "64 word"
  s_numOverdriving :: "64 word"
  s_curr :: publicKey
  s_hostToSectors :: "(publicKey \<times> sectorInfo list) list"
  s_used :: "publicKey set"
  s_sectors :: "bytes option list"
  s_errs :: hostErrorSet

definition sectorsOf :: "publicKey \<Rightarrow> (publicKey \<times> sectorInfo list) list \<Rightarrow> sectorInfo list" where
  "sectorsOf hk hts = (case map_of hts hk of None \<Rightarrow> [] | Some l \<Rightarrow> l)"

text \<open>
  The loop of \<^verbatim>\<open>newSlabDownload\<close> that builds \<^verbatim>\<open>hostToSectors\<close>:
  \<^verbatim>\<open>hostToSectors[s.Host] = append(hostToSectors[s.Host], sectorInfo{s, sI})\<close>.
\<close>

fun buildHostToSectors ::
  "int \<Rightarrow> sector list \<Rightarrow> (publicKey \<times> sectorInfo list) list
     \<Rightarrow> (publicKey \<times> sectorInfo list) list" where
  "buildHostToSectors sI [] hts = hts"
| "buildHostToSectors sI (s # ss) hts =
     buildHostToSectors (sI + 1) ss
       (AList.update (Host s)
          (sectorsOf (Host s) hts @ [\<lparr>si_sector = s, si_index = sI\<rparr>]) hts)"

text \<open>
  \<^verbatim>\<open>downloadManager.newSlabDownload\<close>. The method \<^verbatim>\<open>SlabSlice.SectorRegion\<close> is declared
  outside the files at hand; its result \<open>(offset, length)\<close> is the parameter \<open>region\<close>.
\<close>

definition newSlabDownload :: "32 word \<times> 32 word \<Rightarrow> slabSlice \<Rightarrow> int \<Rightarrow> slabDownload" where
  "newSlabDownload region slc slabIndex =
     \<lparr>s_index = slabIndex,
      s_minShards = uint (MinShards (Slab slc)),
      s_length = snd region,
      s_offset = fst region,
      s_numCompleted = 0,
      s_numInflight = 0,
      s_numLaunched = 0,
      s_numOverdriving = 0,
      s_curr = 0,
      s_hostToSectors = buildHostToSectors 0 (Shards (Slab slc)) [],
      s_used = {},
      s_sectors = replicate (length (Shards (Slab slc))) None,
      s_errs = []\<rparr>"

text \<open>
  \<^verbatim>\<open>slabDownload.nextRequest\<close>. \<open>fastest\<close> is \<^verbatim>\<open>s.mgr.fastest\<close>, which compares the
  downloaders' floating-point estimates; it is a parameter here.
\<close>

definition nextRequest ::
  "(publicKey list \<Rightarrow> publicKey) \<Rightarrow> bool \<Rightarrow> slabDownload
     \<Rightarrow> sectorDownloadReq option \<times> slabDownload" where
  "nextRequest fastest overdrive s =
     (let s1 = (if length (sectorsOf (s_curr s) (s_hostToSectors s)) = 0
                then (let hosts = filter (\<lambda>host. host \<notin> s_used s) (map fst (s_hostToSectors s));
                          curr = fastest hosts
                      in s\<lparr>s_curr := curr, s_used := insert curr (s_used s)\<rparr>)
                else s)
      in case sectorsOf (s_curr s1) (s_hostToSectors s1) of
           [] \<Rightarrow> (None, s1)
         | sector # rest \<Rightarrow>
             (Some \<lparr>req_length = s_length s1, req_offset = s_offset s1,
                    req_root = Root (si_sector sector), req_hk = Host (si_sector sector),
                    req_overdrive = overdrive, req_sectorIndex = si_index sector\<rparr>,
              s1\<lparr>s_hostToSectors := AList.update (s_curr s1) rest (s_hostToSectors s1)\<rparr>))"

text \<open>\<^verbatim>\<open>slabDownload.launch\<close>; a nil request is \<open>None\<close>.\<close>

definition launch ::
  "sectorDownloadReq option \<Rightarrow> slabDownload \<Rightarrow> 'dp downloadManager
     \<Rightarrow> error option \<times> slabDownload \<times> 'dp downloadManager" where
  "launch req s mgr =
     (case req of
        None \<Rightarrow> (Some NoRequestGiven, s, mgr)
      | Some r \<Rightarrow>
          (case mgr_launch r mgr of
             (Some err, mgr') \<Rightarrow> (Some err, s, mgr')
           | (None, mgr') \<Rightarrow>
               (None,
                s\<lparr>s_numInflight := s_numInflight s + 1,
                  s_numLaunched := s_numLaunched s + 1,
                  s_numOverdriving :=
                    (if req_overdrive r then s_numOverdriving s + 1 else s_numOverdriving s)\<rparr>,
                mgr')))"

text \<open>
  \<^verbatim>\<open>slabDownload.receive\<close>. The store \<^verbatim>\<open>s.sectors[resp.sectorIndex] = resp.sector\<close>
  panics when the index is outside the slice. The result is \<open>(finished, next)\<close>.
\<close>

definition receive ::
  "sectorDownloadResp \<Rightarrow> slabDownload \<Rightarrow> 'dp downloadManager
     \<Rightarrow> panic + ((bool \<times> bool) \<times> slabDownload)" where
  "receive resp s mgr =
     (let s1 = (if resp_overdrive resp
                then s\<lparr>s_numOverdriving := s_numOverdriving s - 1\<rparr> else s);
          s2 = s1\<lparr>s_numInflight := s_numInflight s1 - 1\<rparr>
      in case resp_err resp of
           Some e \<Rightarrow> Inr ((False, False), s2\<lparr>s_errs := s_errs s2 @ [(resp_hk resp, e)]\<rparr>)
         | None \<Rightarrow>
             if 0 \<le> resp_sectorIndex resp \<and> resp_sectorIndex resp < int (length (s_sectors s2))
             then (let s3 = s2\<lparr>s_sectors := (s_sectors s2)[nat (resp_sectorIndex resp) := resp_sector resp],
                               s_numCompleted := wrap64 (s_numCompleted s2 + 1)\<rparr>
                   in Inr ((s_minShards s3 \<le> s_numCompleted s3,
                            s_minShards s3
                              \<le> wrap64 (s_numCompleted s3 + int_of_uint64 (m_maxOverdrive mgr))),
                           s3))
             else Inl IndexOutOfRange)"

text \<open>\<^verbatim>\<open>slabDownload.finish\<close>.\<close>

definition finish :: "slabDownload \<Rightarrow> 'dp downloadManager \<Rightarrow> error + bytes option list" where
  "finish s mgr =
     (if s_numCompleted s < s_minShards s
      then Inl (FailedToDownloadSlab (s_numCompleted s) (s_numInflight s) (s_numLaunched s)
                  (numDownloaders mgr) (s_errs s))
      else Inr (s_sectors s))"

section \<open>The slab range selector\<close>

text \<open>The helper \<^verbatim>\<open>cast32\<close> of \<^verbatim>\<open>slabsForDownload\<close>.\<close>

definition cast32 :: "64 word \<Rightarrow> panic + 32 word" where
  "cast32 i = (if i > 0xFFFFFFFF then Inl OverflowDetected else Inr (ucast i))"

text \<open>
  The first loop of \<^verbatim>\<open>slabsForDownload\<close>, on what is left of the range expression:
  the result is the new \<^verbatim>\<open>slabs\<close> and \<^verbatim>\<open>firstOffset\<close>. When the loop ends without
  \<^verbatim>\<open>break\<close>, \<^verbatim>\<open>slabs\<close> is still the whole slice \<open>whole\<close>.
\<close>

fun firstLoop :: "slabSlice list \<Rightarrow> 64 word \<Rightarrow> slabSlice list \<Rightarrow> slabSlice list \<times> 64 word" where
  "firstLoop whole firstOffset [] = (whole, firstOffset)"
| "firstLoop whole firstOffset (ss # rest) =
     (if firstOffset \<le> ucast (Length ss) then (ss # rest, firstOffset)
      else firstLoop whole (firstOffset - ucast (Length ss)) rest)"

text \<open>
  The second loop: the result is the new \<^verbatim>\<open>slabs\<close> (\<^verbatim>\<open>slabs[:i+1]\<close> at the \<^verbatim>\<open>break\<close>,
  everything without one) and \<^verbatim>\<open>lastLength\<close>.
\<close>

fun lastLoop :: "64 word \<Rightarrow> slabSlice list \<Rightarrow> slabSlice list \<times> 64 word" where
  "lastLoop lastLength [] = ([], lastLength)"
| "lastLoop lastLength (ss # rest) =
     (if lastLength \<le> ucast (Length ss) then ([ss], lastLength)
      else (let (kept, l) = lastLoop (lastLength - ucast (Length ss)) rest
            in (ss # kept, l)))"

text \<open>
  \<^verbatim>\<open>slabs[0].Offset += x; slabs[0].Length -= x\<close> and \<^verbatim>\<open>slabs[len(slabs)-1].Length = x\<close>;
  both panic on an empty slice.
\<close>

fun advanceFirst :: "32 word \<Rightarrow> slabSlice list \<Rightarrow> panic + slabSlice list" where
  "advanceFirst x [] = Inl IndexOutOfRange"
| "advanceFirst x (ss # rest) =
     Inr (ss\<lparr>Offset := Offset ss + x, Length := Length ss - x\<rparr> # rest)"

fun truncateLast :: "32 word \<Rightarrow> slabSlice list \<Rightarrow> panic + slabSlice list" where
  "truncateLast x [] = Inl IndexOutOfRange"
| "truncateLast x [ss] = Inr [ss\<lparr>Length := x\<rparr>]"
| "truncateLast x (ss # rest) =
     (case truncateLast x rest of Inl p \<Rightarrow> Inl p | Inr rest' \<Rightarrow> Inr (ss # rest'))"

text \<open>
  \<^verbatim>\<open>slabsForDownload\<close>. In an assignment Go evaluates the call \<^verbatim>\<open>cast32(firstOffset)\<close>
  first and indexes \<^verbatim>\<open>slabs[0]\<close> when it carries the assignment out, so the overflow
  panic comes before the index panic. The function works on a copy of the slice; the
  model is a pure function of its argument.
\<close>

definition slabsForDownload ::
  "slabSlice list \<Rightarrow> 64 word \<Rightarrow> 64 word \<Rightarrow> panic + slabSlice list" where
  "slabsForDownload slabs offset len =
     (let (slabs1, firstOffset) = firstLoop slabs offset slabs
      in case cast32 firstOffset of
           Inl p \<Rightarrow> Inl p
         | Inr fo \<Rightarrow>
             (case advanceFirst fo slabs1 of
                Inl p \<Rightarrow> Inl p
              | Inr slabs2 \<Rightarrow>
                  (let (slabs3, lastLength) = lastLoop len slabs2
                   in case cast32 lastLength of
                        Inl p \<Rightarrow> Inl p
                      | Inr ll \<Rightarrow> truncateLast ll slabs3)))"

section \<open>The start of an object download\<close>

text \<open>Of \<^verbatim>\<open>api.ContractMetadata\<close> the download reads the host key.\<close>

record contractMetadata =
  c_ID :: "256 word"
  c_HostKey :: publicKey

text \<open>
  The count \<^verbatim>\<open>var available uint8\<close> of the shards of a slab whose host has a contract.
\<close>

fun countAvailable :: "publicKey set \<Rightarrow> sector list \<Rightarrow> 8 word \<Rightarrow> 8 word" where
  "countAvailable hosts [] available = available"
| "countAvailable hosts (s # ss) available =
     countAvailable hosts ss (if Host s \<in> hosts then available + 1 else available)"

text \<open>
  \<^verbatim>\<open>downloadManager.DownloadObject\<close> up to the first action of its producer goroutine:
  it returns nil at once when \<^verbatim>\<open>slabsForDownload\<close> gives no slab, and otherwise
  checks the hosts of slab 0 and either reports that there are not enough of them or
  starts \<^verbatim>\<open>downloadSlab\<close> on slab 0.
\<close>

datatype objectDownloadStart =
    ReturnsNil
  | StartPanics panic
  | NotEnoughHosts "8 word" "8 word"
  | LaunchesDownloadSlab slabSlice int

definition DownloadObject_start ::
  "slabSlice list \<Rightarrow> 64 word \<Rightarrow> 64 word \<Rightarrow> contractMetadata list \<Rightarrow> objectDownloadStart" where
  "DownloadObject_start o_Slabs offset len contracts =
     (case slabsForDownload o_Slabs offset len of
        Inl p \<Rightarrow> StartPanics p
      | Inr slabs \<Rightarrow>
          (case slabs of
             [] \<Rightarrow> ReturnsNil
           | next # _ \<Rightarrow>
               (let hosts = set (map c_HostKey contracts);
                    available = countAvailable hosts (Shards (Slab next)) 0
                in if available < MinShards (Slab next)
                   then NotEnoughHosts available (MinShards (Slab next))
                   else LaunchesDownloadSlab next 0)))"

text \<open>
  The first iteration of the loop of \<^verbatim>\<open>downloadShards\<close> that launches \<^verbatim>\<open>minShards\<close>
  requests, when \<^verbatim>\<open>minShards\<close> is positive: \<^verbatim>\<open>s.launch(s.nextRequest(ctx, respChan, false))\<close>.
\<close>

definition launchFirst ::
  "(publicKey list \<Rightarrow> publicKey) \<Rightarrow> slabDownload \<Rightarrow> 'dp downloadManager
     \<Rightarrow> error option \<times> slabDownload \<times> 'dp downloadManager" where
  "launchFirst fastest s mgr =
     (let (req, s1) = nextRequest fastest False s in launch req s1 mgr)"

section \<open>Runs of a slab download\<close>

text \<open>
  The state of one run of \<^verbatim>\<open>downloadShards\<close>: the slab download and the manager, the
  requests that \<^verbatim>\<open>nextRequest\<close> has returned and \<^verbatim>\<open>launch\<close> has not yet seen, the
  requests that sit with a downloader and have not been answered, and the responses that
  \<^verbatim>\<open>receive\<close> has processed, oldest first.
\<close>

record 'dp slabRunState =
  run_slab :: slabDownload
  run_mgr :: "'dp downloadManager"
  run_created :: "sectorDownloadReq list"
  run_queued :: "sectorDownloadReq list"
  run_received :: "sectorDownloadResp list"

text \<open>
  The states a run goes through. Each rule is one critical section of the source, so
  the goroutine of \<^verbatim>\<open>downloadShards\<close> and the overdrive goroutine interleave freely.
  \<^item> \<open>starts\<close>: \<^verbatim>\<open>newSlabDownload\<close> creates the slab download.
  \<^item> \<open>environment\<close>: other goroutines change the manager (\<^verbatim>\<open>refreshDownloaders\<close>,
    downloaders taking requests off their queues); \<^verbatim>\<open>maxOverdrive\<close> is constant.
  \<^item> \<open>requests\<close>: a call of \<^verbatim>\<open>nextRequest\<close>, with any choice of \<^verbatim>\<open>fastest\<close>.
  \<^item> \<open>launches\<close>: \<^verbatim>\<open>launch\<close> of a request that \<^verbatim>\<open>nextRequest\<close> returned; without an
    error the request is with a downloader.
  \<^item> \<open>receives\<close>: a downloader has executed a request, \<^verbatim>\<open>succeed\<close> or \<^verbatim>\<open>fail\<close> has
    sent its response, and \<^verbatim>\<open>downloadShards\<close> passes it to \<^verbatim>\<open>receive\<close>.
\<close>

inductive slabRun :: "slabSlice \<Rightarrow> 'dp slabRunState \<Rightarrow> bool" for slc :: slabSlice where
  starts:
    "slabRun slc \<lparr>run_slab = newSlabDownload region slc slabIndex, run_mgr = mgr,
                  run_created = [], run_queued = [], run_received = []\<rparr>"
| environment:
    "slabRun slc r \<Longrightarrow> m_maxOverdrive mgr' = m_maxOverdrive (run_mgr r) \<Longrightarrow>
       slabRun slc (r\<lparr>run_mgr := mgr'\<rparr>)"
| requests:
    "slabRun slc r \<Longrightarrow> nextRequest fastest overdrive (run_slab r) = (req, s') \<Longrightarrow>
       slabRun slc (r\<lparr>run_slab := s',
                      run_created := run_created r @ (case req of None \<Rightarrow> [] | Some q \<Rightarrow> [q])\<rparr>)"
| launches:
    "slabRun slc r \<Longrightarrow> run_created r = before @ q # after \<Longrightarrow>
       launch (Some q) (run_slab r) (run_mgr r) = (err, s', mgr') \<Longrightarrow>
       slabRun slc (r\<lparr>run_slab := s', run_mgr := mgr', run_created := before @ after,
                      run_queued := (if err = None then run_queued r @ [q] else run_queued r)\<rparr>)"
| receives:
    "slabRun slc r \<Longrightarrow> run_queued r = before @ q # after \<Longrightarrow>
       resp = succeed q sector \<or> resp = fail q e \<Longrightarrow>
       receive resp (run_slab r) (run_mgr r) = Inr (res, s') \<Longrightarrow>
       slabRun slc (r\<lparr>run_slab := s', run_queued := before @ after,
                      run_received := run_received r @ [resp]\<rparr>)"

text \<open>The host errors of the failed responses among \<open>resps\<close>, in their order.\<close>

fun collectedErrors :: "sectorDownloadResp list \<Rightarrow> hostErrorSet" where
  "collectedErrors [] = []"
| "collectedErrors (resp # resps) =
     (case resp_err resp of
        None \<Rightarrow> collectedErrors resps
      | Some e \<Rightarrow> (resp_hk resp, e) # collectedErrors resps)"

text \<open>
  The invariant of a run of a slab with \<open>n\<close> shards. \<open>pendingIdx\<close> lists the shard
  indices that are not yet assigned to a request, or are in a request that has not been
  answered; \<open>filled\<close> is the set of positions of the shard matrix that hold a sector.
\<close>

definition remainingIdx :: "slabDownload \<Rightarrow> int list" where
  "remainingIdx s = map si_index (concat (map snd (s_hostToSectors s)))"

definition pendingIdx :: "'dp slabRunState \<Rightarrow> int list" where
  "pendingIdx r =
     remainingIdx (run_slab r) @ map req_sectorIndex (run_created r)
       @ map req_sectorIndex (run_queued r)"

definition filled :: "bytes option list \<Rightarrow> nat set" where
  "filled m = {j. j < length m \<and> m ! j \<noteq> None}"

definition runInv :: "nat \<Rightarrow> 'dp slabRunState \<Rightarrow> bool" where
  "runInv n r =
     (length (s_sectors (run_slab r)) = n
      \<and> distinct (pendingIdx r)
      \<and> (\<forall>i \<in> set (pendingIdx r). 0 \<le> i \<and> i < int n \<and> s_sectors (run_slab r) ! nat i = None)
      \<and> (\<forall>resp \<in> set (run_received r). resp_err resp = None \<longrightarrow>
            0 \<le> resp_sectorIndex resp \<and> resp_sectorIndex resp < int n
            \<and> resp_sector resp \<noteq> None
            \<and> s_sectors (run_slab r) ! nat (resp_sectorIndex resp) = resp_sector resp)
      \<and> (\<forall>j \<in> filled (s_sectors (run_slab r)).
            \<exists>resp \<in> set (run_received r). resp_err resp = None \<and> resp_sectorIndex resp = int j)
      \<and> s_numCompleted (run_slab r) = int (card (filled (s_sectors (run_slab r))))
      \<and> s_errs (run_slab r) = collectedErrors (run_received r))"

section \<open>Concrete states used as examples\<close>

text \<open>A cache that holds a price table for host 1 while a refresh is in flight.\<close>

definition cachedPriceTables :: priceTables where
  "cachedPriceTables =
     \<lparr>tables = [1 \<mapsto> \<lparr>pt_pt = Some \<lparr>UID = 3, Validity = 100\<rparr>, pt_hk = 1, pt_expiry = 400,
                         pt_ongoingUpdate = Some 0\<rparr>],
      updates = [0 \<mapsto> \<lparr>upd_err = None, upd_done = Open, upd_pt = None\<rparr>],
      nextUpdate = 1\<rparr>"

text \<open>A manager with two downloaders, none of them stopped.\<close>

definition runningManager :: "unit downloadManager" where
  "runningManager =
     \<lparr>m_maxOverdrive = 2, m_stopChan = Open,
      m_downloaders =
        [(1, \<lparr>d_statsSectorDownloadEstimateInMS = (), d_signalWork = False,
              d_stopChan = Open, d_consecutiveFailures = 0, d_queue = [], d_numDownloads = 0\<rparr>),
         (2, \<lparr>d_statsSectorDownloadEstimateInMS = (), d_signalWork = True,
              d_stopChan = Open, d_consecutiveFailures = 3, d_queue = [], d_numDownloads = 9\<rparr>)]\<rparr>"

text \<open>Classifiers that recognise four fixed error strings, and a downloader.\<close>

definition exampleClassifiers :: classifiers where
  "exampleClassifiers =
     \<lparr>isBalanceInsufficient = (\<lambda>e. e = ErrorString ''balance insufficient''),
      isPriceTableExpired = (\<lambda>e. e = ErrorString ''price table expired''),
      isPriceTableNotFound = (\<lambda>e. e = ErrorString ''price table not found''),
      isSectorNotFound = (\<lambda>e. e = ErrorString ''sector not found'')\<rparr>"

definition exampleDownloader :: "real list downloader" where
  "exampleDownloader =
     \<lparr>d_statsSectorDownloadEstimateInMS = [12], d_signalWork = False, d_stopChan = Open,
      d_consecutiveFailures = 4, d_queue = [], d_numDownloads = 20\<rparr>"

text \<open>A slab download of two shards that waits for its single request.\<close>

definition exampleSlabDownload :: slabDownload where
  "exampleSlabDownload =
     \<lparr>s_index = 0, s_minShards = 1, s_length = 64, s_offset = 0, s_numCompleted = 0,
      s_numInflight = 1, s_numLaunched = 1, s_numOverdriving = 0, s_curr = 1,
      s_hostToSectors = [(1, []), (2, [\<lparr>si_sector = \<lparr>Host = 2, Root = 9\<rparr>, si_index = 1\<rparr>])],
      s_used = {1}, s_sectors = [None, None], s_errs = []\<rparr>"

definition exampleRequest :: sectorDownloadReq where
  "exampleRequest =
     \<lparr>req_length = 64, req_offset = 0, req_root = 8, req_hk = 1, req_overdrive = False,
      req_sectorIndex = 0\<rparr>"

text \<open>
  An object of one slab slice of 100 bytes, stored with one shard on host 1, and one of
  two slices. \<open>totalLength\<close> is the sum of the \<^verbatim>\<open>Length\<close> fields of a list of slices.
\<close>

definition exampleSlice :: slabSlice where
  "exampleSlice =
     \<lparr>Slab = \<lparr>Key = 0, MinShards = 1, Shards = [\<lparr>Host = 1, Root = 7\<rparr>]\<rparr>,
      Offset = 0, Length = 100\<rparr>"

definition exampleSlice2 :: slabSlice where
  "exampleSlice2 =
     \<lparr>Slab = \<lparr>Key = 1, MinShards = 1, Shards = [\<lparr>Host = 2, Root = 8\<rparr>]\<rparr>,
      Offset = 10, Length = 50\<rparr>"

definition totalLength :: "slabSlice list \<Rightarrow> nat" where
  "totalLength slabs = sum_list (map (\<lambda>ss. unat (Length ss)) slabs)"

text \<open>
  A slab of two shards, on hosts 1 and 2, of which one is needed, and a run of its
  download: \<open>launchedRun\<close> after \<^verbatim>\<open>nextRequest\<close> and \<^verbatim>\<open>launch\<close> have put the request
  for shard 0 on the queue of host 1, \<open>completedRun\<close> after the sector has arrived, and
  \<open>failedRun\<close> after the request has failed instead.
\<close>

definition exampleSlabSlice :: slabSlice where
  "exampleSlabSlice =
     \<lparr>Slab = \<lparr>Key = 0, MinShards = 1,
              Shards = [\<lparr>Host = 1, Root = 8\<rparr>, \<lparr>Host = 2, Root = 9\<rparr>]\<rparr>,
      Offset = 0, Length = 100\<rparr>"

definition launchedManager :: "unit downloadManager" where
  "launchedManager =
     runningManager\<lparr>m_downloaders := enqueueAt 1 exampleRequest (m_downloaders runningManager)\<rparr>"

definition launchedRun :: "unit slabRunState" where
  "launchedRun =
     \<lparr>run_slab = exampleSlabDownload, run_mgr = launchedManager, run_created = [],
      run_queued = [exampleRequest], run_received = []\<rparr>"

definition completedRun :: "unit slabRunState" where
  "completedRun =
     \<lparr>run_slab = exampleSlabDownload\<lparr>s_numInflight := 0, s_sectors := [Some [7, 7], None],
                                       s_numCompleted := 1\<rparr>,
      run_mgr = launchedManager, run_created = [], run_queued = [],
      run_received = [succeed exampleRequest [7, 7]]\<rparr>"

definition failedRun :: "unit slabRunState" where
  "failedRun =
     \<lparr>run_slab = exampleSlabDownload\<lparr>s_numInflight := 0,
                                       s_errs := [(1, ErrorString ''timeout'')]\<rparr>,
      run_mgr = launchedManager, run_created = [], run_queued = [],
      run_received = [fail exampleRequest (ErrorString ''timeout'')]\<rparr>"

section \<open>Properties of the price-table cache\<close>

lemma priceTable_existing:
  "tables pts hk = Some pt \<Longrightarrow> priceTable hk pts = (pt, pts)"
  by (simp add: priceTable_def)

lemma PriceTable_stored:
  "tables pts hk = Some pt \<Longrightarrow> pt_pt pt = Some hpt \<Longrightarrow>
     PriceTable now hk pts = ((hpt, now < pt_expiry pt + priceTableValidityLeeway), pts)"
  by (simp add: PriceTable_def priceTable_existing)

lemma PriceTable_never_stored:
  "tables pts hk = None \<or> (\<exists>pt. tables pts hk = Some pt \<and> pt_pt pt = None) \<Longrightarrow>
     fst (PriceTable now hk pts) = (zeroHostPriceTable, False)"
  by (auto simp: PriceTable_def priceTable_def Let_def)

text \<open>
  C4. The claim: the lookup reports a stored table as valid exactly while the current
  time is before expiry minus the leeway of 30 seconds. The comment on
  \<^verbatim>\<open>priceTableValidityLeeway\<close> says the same. The code adds the leeway to the expiry
  instead (\<open>PriceTable_stored\<close>). Here a refresh at time 0 stores a table that is valid
  for 100 s, so it expires at 100 s: the lookup still reports it valid at 80 s, inside
  the last 30 seconds, and at 129 s, after the expiry, and reports it invalid only from
  130 s on.
\<close>

theorem PriceTable_valid_inside_leeway:
  "(let hpt = \<lparr>UID = 5, Validity = 100 * 1000000000\<rparr>;
        pts1 = snd (Update_begin 1 newPriceTables);
        pts2 = snd (Update_finish 0 1 0 (hpt, None) pts1)
    in map_option pt_expiry (tables pts2 1) = Some (100 * 1000000000)
       \<and> fst (PriceTable (80 * 1000000000) 1 pts2) = (hpt, True)
       \<and> fst (PriceTable (129 * 1000000000) 1 pts2) = (hpt, True)
       \<and> fst (PriceTable (130 * 1000000000) 1 pts2) = (hpt, False))"
  by (simp add: Update_begin_def Update_finish_def PriceTable_def priceTable_def
      newPriceTables_def priceTableValidityLeeway_def Let_def)

text \<open>
  C3. The claim: a caller of \<^verbatim>\<open>Update\<close> that finds a refresh in flight waits for it
  and observes the price table the refresh obtained. Two callers enter for host 1 on an
  empty cache: the first is told to perform the refresh, the second gets the same update
  object and blocks. The transport succeeds and the first caller finishes and returns the
  table. \<^verbatim>\<open>Update\<close> never assigns \<^verbatim>\<open>ongoing.pt\<close>, so the second caller, woken up,
  dereferences a nil pointer in \<^verbatim>\<open>return *ongoing.pt, nil\<close>.
\<close>

theorem Update_waiter_nil_dereference:
  "(let hpt = \<lparr>UID = 7, Validity = 600 * 1000000000\<rparr>;
        ((a1, perform1), pts1) = Update_begin 1 newPriceTables;
        ((a2, perform2), pts2) = Update_begin 1 pts1;
        waiting = Update_await False False a2 pts2;
        (r1, pts3) = Update_finish 0 1 a1 (hpt, None) pts2;
        r2 = Update_await False False a2 pts3
    in perform1 \<and> \<not> perform2 \<and> a2 = a1 \<and> waiting = Blocked
       \<and> r1 = Returns (hpt, None) \<and> r2 = Panics NilPointerDereference)"
  by (simp add: Update_begin_def Update_finish_def Update_await_def priceTable_def
      newPriceTables_def Let_def)

text \<open>
  C5. When the caller that performs the refresh finishes (the entry of the host exists
  and its update object is still open, as \<open>Update_begin\<close> left them): on success the
  entry holds the new price table and expires at \<open>now + Validity\<close>; on an error the
  cached price table and its expiry are what they were, and every lookup answers as
  before. The entries of other hosts are untouched in both cases.
\<close>

theorem Update_finish_cache:
  assumes "tables pts hk = Some pt"
    and "updates pts a = Some ongoing"
    and "upd_done ongoing = Open"
  shows "\<exists>pts' pt'.
           Update_finish now hk a (hpt, err) pts = (Returns (hpt, err), pts')
         \<and> tables pts' hk = Some pt'
         \<and> (err = None \<longrightarrow> pt_pt pt' = Some hpt \<and> pt_expiry pt' = now + Validity hpt)
         \<and> (err \<noteq> None \<longrightarrow> pt_pt pt' = pt_pt pt \<and> pt_expiry pt' = pt_expiry pt
                \<and> fst (PriceTable t hk pts') = fst (PriceTable t hk pts))
         \<and> (\<forall>hk'. hk' \<noteq> hk \<longrightarrow> tables pts' hk' = tables pts hk')"
  using assms
  by (auto simp: Update_finish_def priceTable_existing PriceTable_def Let_def
      split: option.splits)

text \<open>
  Witness for C5: on the cache \<open>cachedPriceTables\<close> a successful refresh at time 500
  stores the new table with expiry 1100, and a failed one keeps the old table and its
  expiry 400.
\<close>

theorem Update_finish_cache_witness:
  "(\<exists>pts' pt'.
      Update_finish 500 1 0 (\<lparr>UID = 7, Validity = 600\<rparr>, None) cachedPriceTables
        = (Returns (\<lparr>UID = 7, Validity = 600\<rparr>, None), pts')
      \<and> tables pts' 1 = Some pt'
      \<and> pt_pt pt' = Some \<lparr>UID = 7, Validity = 600\<rparr> \<and> pt_expiry pt' = 1100)
   \<and> (\<exists>pts' pt'.
      Update_finish 500 1 0 (zeroHostPriceTable, Some (ErrorString ''rpc failed'')) cachedPriceTables
        = (Returns (zeroHostPriceTable, Some (ErrorString ''rpc failed'')), pts')
      \<and> tables pts' 1 = Some pt'
      \<and> pt_pt pt' = Some \<lparr>UID = 3, Validity = 100\<rparr> \<and> pt_expiry pt' = 400)"
  using Update_finish_cache [of cachedPriceTables 1
      "\<lparr>pt_pt = Some \<lparr>UID = 3, Validity = 100\<rparr>, pt_hk = 1, pt_expiry = 400,
        pt_ongoingUpdate = Some 0\<rparr>" 0
      "\<lparr>upd_err = None, upd_done = Open, upd_pt = None\<rparr>" 500
      "\<lparr>UID = 7, Validity = 600\<rparr>" None 0]
    Update_finish_cache [of cachedPriceTables 1
      "\<lparr>pt_pt = Some \<lparr>UID = 3, Validity = 100\<rparr>, pt_hk = 1, pt_expiry = 400,
        pt_ongoingUpdate = Some 0\<rparr>" 0
      "\<lparr>upd_err = None, upd_done = Open, upd_pt = None\<rparr>" 500
      zeroHostPriceTable "Some (ErrorString ''rpc failed'')" 0]
  by (simp add: cachedPriceTables_def) blast

text \<open>
  \<open>Update_begin\<close>, when it tells the caller to perform the refresh, leaves an entry for
  the host and an open update object behind.
\<close>

lemma Update_begin_performs:
  assumes "Update_begin hk pts = ((a, True), pts1)"
  shows "\<exists>pt. tables pts1 hk = Some pt \<and> pt_ongoingUpdate pt = Some a
           \<and> updates pts1 a = Some \<lparr>upd_err = None, upd_done = Open, upd_pt = None\<rparr>"
  using assms
  by (auto simp: Update_begin_def priceTable_def Let_def split: option.splits)

section \<open>Properties of the downloader and the manager\<close>

text \<open>
  C7. \<open>trackFailure\<close> on a success resets \<open>consecutiveFailures\<close> to 0 and leaves the
  latency estimator alone; on an error that one of the four classifiers recognises
  (balance insufficient, price table expired, price table not found, sector not found)
  it changes nothing; on any other error it increments \<open>consecutiveFailures\<close> and tracks
  one hour, in milliseconds, into the latency estimator.
\<close>

theorem trackFailure_outcomes:
  "(err = None \<longrightarrow>
      d_consecutiveFailures (trackFailure cl Track err d) = 0
      \<and> d_statsSectorDownloadEstimateInMS (trackFailure cl Track err d)
          = d_statsSectorDownloadEstimateInMS d)
   \<and> (\<forall>e. err = Some e
          \<and> (isBalanceInsufficient cl e \<or> isPriceTableExpired cl e
              \<or> isPriceTableNotFound cl e \<or> isSectorNotFound cl e)
        \<longrightarrow> trackFailure cl Track err d = d)
   \<and> (\<forall>e. err = Some e
          \<and> \<not> (isBalanceInsufficient cl e \<or> isPriceTableExpired cl e
                \<or> isPriceTableNotFound cl e \<or> isSectorNotFound cl e)
        \<longrightarrow> trackFailure cl Track err d
              = d\<lparr>d_consecutiveFailures := d_consecutiveFailures d + 1,
                   d_statsSectorDownloadEstimateInMS :=
                     Track (60 * 60 * 1000) (d_statsSectorDownloadEstimateInMS d)\<rparr>)"
  by (auto simp: trackFailure_def hourInMilliseconds_def)

text \<open>
  Witness for C7, with \<open>Track\<close> appending to a list of samples: a success, an expired
  price table and a refused connection.
\<close>

theorem trackFailure_outcomes_witness:
  "d_consecutiveFailures (trackFailure exampleClassifiers (\<lambda>x xs. xs @ [x]) None exampleDownloader) = 0
   \<and> d_statsSectorDownloadEstimateInMS
        (trackFailure exampleClassifiers (\<lambda>x xs. xs @ [x]) None exampleDownloader) = [12]
   \<and> trackFailure exampleClassifiers (\<lambda>x xs. xs @ [x])
        (Some (ErrorString ''price table expired'')) exampleDownloader = exampleDownloader
   \<and> trackFailure exampleClassifiers (\<lambda>x xs. xs @ [x])
        (Some (ErrorString ''connection refused'')) exampleDownloader
       = exampleDownloader\<lparr>d_consecutiveFailures := 5,
                            d_statsSectorDownloadEstimateInMS := [12, 3600000]\<rparr>"
  using trackFailure_outcomes [of None exampleClassifiers "\<lambda>x xs. xs @ [x]" exampleDownloader]
    trackFailure_outcomes [of "Some (ErrorString ''price table expired'')" exampleClassifiers
      "\<lambda>x xs. xs @ [x]" exampleDownloader]
    trackFailure_outcomes [of "Some (ErrorString ''connection refused'')" exampleClassifiers
      "\<lambda>x xs. xs @ [x]" exampleDownloader]
  by (simp add: exampleClassifiers_def exampleDownloader_def)

lemma closeDownloaders_all_open:
  "\<forall>(hk, d) \<in> set ds. d_stopChan d = Open \<Longrightarrow>
     closeDownloaders ds = Inr (map (\<lambda>(hk, d). (hk, d\<lparr>d_stopChan := Closed\<rparr>)) ds)"
  by (induction ds) auto

lemma Stop_closes_stopChan: "Stop mgr = Inr mgr' \<Longrightarrow> m_stopChan mgr' = Closed"
  by (cases "m_stopChan mgr") (auto simp: Stop_def split: sum.splits)

lemma Stop_of_stopped: "m_stopChan mgr = Closed \<Longrightarrow> Stop mgr = Inl CloseOfClosedChannel"
  by (simp add: Stop_def)

text \<open>
  C9, as stated, fails: \<^verbatim>\<open>Stop\<close> closes \<^verbatim>\<open>mgr.stopChan\<close> without a guard, and closing
  a closed channel panics. On a manager with one downloader the first call returns the
  stopped manager and the second call, on that manager, panics.
\<close>

theorem Stop_second_call_panics:
  "Stop \<lparr>m_maxOverdrive = 2, m_stopChan = Open,
         m_downloaders = [(1, \<lparr>d_statsSectorDownloadEstimateInMS = (), d_signalWork = False,
                               d_stopChan = Open, d_consecutiveFailures = 0, d_queue = [],
                               d_numDownloads = 0\<rparr>)]\<rparr>
     = Inr \<lparr>m_maxOverdrive = 2, m_stopChan = Closed,
            m_downloaders = [(1, \<lparr>d_statsSectorDownloadEstimateInMS = (), d_signalWork = False,
                                  d_stopChan = Closed, d_consecutiveFailures = 0, d_queue = [],
                                  d_numDownloads = 0\<rparr>)]\<rparr>
   \<and> Stop \<lparr>m_maxOverdrive = 2, m_stopChan = Closed,
            m_downloaders = [(1, \<lparr>d_statsSectorDownloadEstimateInMS = (), d_signalWork = False,
                                  d_stopChan = Closed, d_consecutiveFailures = 0, d_queue = [],
                                  d_numDownloads = 0\<rparr>)]\<rparr>
     = Inl CloseOfClosedChannel"
  by (simp add: Stop_def)

text \<open>
  C9, amended. On a manager whose stop signal and whose downloaders' stop signals are
  all open, \<^verbatim>\<open>Stop\<close> returns with the manager's stop signal and every downloader's stop
  signal closed and the set of downloaders unchanged; a second call on the stopped
  manager panics with a close of a closed channel.
\<close>

theorem Stop_closes_then_panics:
  assumes "m_stopChan mgr = Open"
    and "\<forall>(hk, d) \<in> set (m_downloaders mgr). d_stopChan d = Open"
  shows "\<exists>mgr'. Stop mgr = Inr mgr'
           \<and> m_stopChan mgr' = Closed
           \<and> (\<forall>(hk, d) \<in> set (m_downloaders mgr'). d_stopChan d = Closed)
           \<and> map fst (m_downloaders mgr') = map fst (m_downloaders mgr)
           \<and> Stop mgr' = Inl CloseOfClosedChannel"
  using assms closeDownloaders_all_open [of "m_downloaders mgr"]
  by (auto simp: Stop_def comp_def case_prod_unfold)

text \<open>Witness for C9, amended, on \<open>runningManager\<close> with its two downloaders.\<close>

theorem Stop_closes_then_panics_witness:
  "\<exists>mgr'. Stop runningManager = Inr mgr'
      \<and> m_stopChan mgr' = Closed
      \<and> map (d_stopChan \<circ> snd) (m_downloaders mgr') = [Closed, Closed]
      \<and> Stop mgr' = Inl CloseOfClosedChannel"
  using Stop_closes_then_panics [of runningManager]
  by (auto simp: runningManager_def Stop_def)

section \<open>Properties of launch and receive\<close>

lemma map_of_enqueueAt:
  "map_of ds hk = Some d \<Longrightarrow> map_of (enqueueAt hk req ds) hk = Some (enqueue req d)"
  by (induction ds) auto

lemma map_of_enqueueAt_other:
  "hk' \<noteq> hk \<Longrightarrow> map_of (enqueueAt hk req ds) hk' = map_of ds hk'"
  by (induction ds) auto

text \<open>
  C10. \<open>launch\<close> with a nil request, or with a request whose host has no downloader,
  returns an error and leaves the slab download, with its counters, and the manager as
  they were. With a request whose host has a downloader it returns no error, the request
  is at the end of that downloader's queue, \<open>numInflight\<close> and \<open>numLaunched\<close> are one
  higher, and \<open>numOverdriving\<close> is one higher for an overdrive request and unchanged
  otherwise.
\<close>

theorem launch_counters:
  "(req = None \<or> (\<exists>r. req = Some r \<and> map_of (m_downloaders mgr) (req_hk r) = None)
      \<longrightarrow> (\<exists>e. launch req s mgr = (Some e, s, mgr)))
   \<and> (\<forall>r d. req = Some r \<and> map_of (m_downloaders mgr) (req_hk r) = Some d
      \<longrightarrow> (\<exists>s' mgr'. launch req s mgr = (None, s', mgr')
             \<and> s_numInflight s' = s_numInflight s + 1
             \<and> s_numLaunched s' = s_numLaunched s + 1
             \<and> s_numOverdriving s'
                 = (if req_overdrive r then s_numOverdriving s + 1 else s_numOverdriving s)
             \<and> map_of (m_downloaders mgr') (req_hk r) = Some (enqueue r d)
             \<and> d_queue (enqueue r d) = d_queue d @ [r]))"
  by (auto simp: launch_def mgr_launch_def map_of_enqueueAt enqueue_def)

text \<open>
  Witness for C10 on \<open>runningManager\<close>, which has downloaders for hosts 1 and 2 only:
  a nil request, a request for host 3, and a request and an overdrive request for host 1.
\<close>

theorem launch_counters_witness:
  "launch None exampleSlabDownload runningManager
     = (Some NoRequestGiven, exampleSlabDownload, runningManager)
   \<and> launch (Some (exampleRequest\<lparr>req_hk := 3\<rparr>)) exampleSlabDownload runningManager
     = (Some (NoDownloaderForHost 3), exampleSlabDownload, runningManager)
   \<and> (\<exists>s' mgr'. launch (Some exampleRequest) exampleSlabDownload runningManager = (None, s', mgr')
        \<and> s_numInflight s' = 2 \<and> s_numLaunched s' = 2 \<and> s_numOverdriving s' = 0
        \<and> map_option d_queue (map_of (m_downloaders mgr') 1) = Some [exampleRequest])
   \<and> (\<exists>s' mgr'. launch (Some (exampleRequest\<lparr>req_overdrive := True\<rparr>)) exampleSlabDownload
                   runningManager = (None, s', mgr')
        \<and> s_numInflight s' = 2 \<and> s_numLaunched s' = 2 \<and> s_numOverdriving s' = 1)"
  using launch_counters [of None runningManager exampleSlabDownload]
    launch_counters [of "Some (exampleRequest\<lparr>req_hk := 3\<rparr>)" runningManager exampleSlabDownload]
    launch_counters [of "Some exampleRequest" runningManager exampleSlabDownload]
    launch_counters [of "Some (exampleRequest\<lparr>req_overdrive := True\<rparr>)" runningManager
      exampleSlabDownload]
  by (simp add: launch_def mgr_launch_def enqueue_def runningManager_def
      exampleSlabDownload_def exampleRequest_def)

lemma wrap64_id: "- (2 ^ 63) \<le> i \<Longrightarrow> i < 2 ^ 63 \<Longrightarrow> wrap64 i = i"
  unfolding wrap64_def
  by (simp add: sint_sbintrunc' signed_take_bit_int_eq_self)

lemma int_of_uint64_small: "uint w < 2 ^ 63 \<Longrightarrow> int_of_uint64 w = uint w"
proof -
  assume "uint w < 2 ^ 63"
  moreover have "- (2 ^ 63) \<le> uint w"
    by (rule order_trans [of _ 0]) simp_all
  ultimately have "signed_take_bit 63 (uint w) = uint w"
    by (intro signed_take_bit_int_eq_self) simp_all
  then show ?thesis
    by (simp add: int_of_uint64_def sint_uint)
qed

text \<open>
  C6, as stated, fails on the second result: \<^verbatim>\<open>receive\<close> computes
  \<^verbatim>\<open>s.numCompleted+int(s.mgr.maxOverdrive) >= s.minShards\<close> in the signed 64-bit type
  \<^verbatim>\<open>int\<close>. With \<^verbatim>\<open>maxOverdrive\<close> at the largest \<^verbatim>\<open>uint64\<close>, \<^verbatim>\<open>int(maxOverdrive)\<close> is -1:
  the response that completes a slab of one shard gives \<open>(finished, next) = (True, False)\<close>,
  while \<open>numCompleted + maxOverdrive \<ge> minShards\<close> holds of the numbers.
\<close>

theorem receive_next_wraps:
  "receive \<lparr>resp_overdrive = False, resp_hk = 1, resp_sectorIndex = 0,
            resp_sector = Some [1, 2], resp_err = None\<rparr>
     \<lparr>s_index = 0, s_minShards = 1, s_length = 64, s_offset = 0, s_numCompleted = 0,
      s_numInflight = 1, s_numLaunched = 1, s_numOverdriving = 0, s_curr = 1,
      s_hostToSectors = [(1, [])], s_used = {1}, s_sectors = [None], s_errs = []\<rparr>
     \<lparr>m_maxOverdrive = 0xFFFFFFFFFFFFFFFF, m_stopChan = Open,
      m_downloaders = ([] :: (publicKey \<times> unit downloader) list)\<rparr>
   = Inr ((True, False),
       \<lparr>s_index = 0, s_minShards = 1, s_length = 64, s_offset = 0, s_numCompleted = 1,
        s_numInflight = 0, s_numLaunched = 1, s_numOverdriving = 0, s_curr = 1,
        s_hostToSectors = [(1, [])], s_used = {1}, s_sectors = [Some [1, 2]], s_errs = []\<rparr>)
   \<and> (1::int) \<le> 1 + uint (0xFFFFFFFFFFFFFFFF :: 64 word)"
  by (simp add: receive_def wrap64_def int_of_uint64_def)

text \<open>
  C6, amended. For a response with an error, \<open>receive\<close> decrements \<open>numInflight\<close>, and
  \<open>numOverdriving\<close> for an overdrive response, appends the host's error to \<open>errs\<close> and
  returns \<open>(False, False)\<close>. For a response with a sector whose index lies in the shard
  matrix, it decrements the same counters, stores the sector at that index, increments
  \<open>numCompleted\<close> and returns \<open>finished = (numCompleted \<ge> minShards)\<close> and
  \<open>next = (numCompleted + int(maxOverdrive) \<ge> minShards)\<close>, the sum taken in signed
  64-bit arithmetic. Whenever \<open>numCompleted + maxOverdrive\<close> stays below \<open>2^63\<close>, that
  is \<open>next = (numCompleted + maxOverdrive \<ge> minShards)\<close>.
\<close>

theorem receive_outcomes:
  "(\<forall>e. resp_err resp = Some e \<longrightarrow>
      receive resp s mgr
        = Inr ((False, False),
            s\<lparr>s_numOverdriving :=
                 (if resp_overdrive resp then s_numOverdriving s - 1 else s_numOverdriving s),
               s_numInflight := s_numInflight s - 1,
               s_errs := s_errs s @ [(resp_hk resp, e)]\<rparr>))
   \<and> (resp_err resp = None
        \<and> 0 \<le> resp_sectorIndex resp \<and> resp_sectorIndex resp < int (length (s_sectors s)) \<longrightarrow>
      (\<exists>finished next s'.
         receive resp s mgr = Inr ((finished, next), s')
         \<and> s' = s\<lparr>s_numOverdriving :=
                    (if resp_overdrive resp then s_numOverdriving s - 1 else s_numOverdriving s),
                  s_numInflight := s_numInflight s - 1,
                  s_sectors := (s_sectors s)[nat (resp_sectorIndex resp) := resp_sector resp],
                  s_numCompleted := wrap64 (s_numCompleted s + 1)\<rparr>
         \<and> finished = (s_minShards s \<le> s_numCompleted s')
         \<and> next = (s_minShards s
                     \<le> wrap64 (s_numCompleted s' + int_of_uint64 (m_maxOverdrive mgr)))
         \<and> (0 \<le> s_numCompleted s \<and> s_numCompleted s + 1 + uint (m_maxOverdrive mgr) < 2 ^ 63 \<longrightarrow>
              s_numCompleted s' = s_numCompleted s + 1
              \<and> next = (s_minShards s \<le> s_numCompleted s' + uint (m_maxOverdrive mgr)))))"
proof -
  have small: "wrap64 (s_numCompleted s + 1) = s_numCompleted s + 1
      \<and> wrap64 (s_numCompleted s + 1 + int_of_uint64 (m_maxOverdrive mgr))
          = s_numCompleted s + 1 + uint (m_maxOverdrive mgr)"
    if "0 \<le> s_numCompleted s" "s_numCompleted s + 1 + uint (m_maxOverdrive mgr) < 2 ^ 63"
  proof -
    have "uint (m_maxOverdrive mgr) < 2 ^ 63" using that by simp
    then have "int_of_uint64 (m_maxOverdrive mgr) = uint (m_maxOverdrive mgr)"
      by (rule int_of_uint64_small)
    moreover have "0 \<le> uint (m_maxOverdrive mgr)" by simp
    then have "wrap64 (s_numCompleted s + 1) = s_numCompleted s + 1"
      using that by (intro wrap64_id) linarith+
    moreover have "wrap64 (s_numCompleted s + 1 + uint (m_maxOverdrive mgr))
        = s_numCompleted s + 1 + uint (m_maxOverdrive mgr)"
      using that by (intro wrap64_id) simp_all
    ultimately show ?thesis by simp
  qed
  show ?thesis
    using small by (auto simp: receive_def Let_def)
qed

text \<open>
  Witness for C6, amended, on \<open>exampleSlabDownload\<close> and \<open>runningManager\<close>
  (\<open>minShards = 1\<close>, \<open>maxOverdrive = 2\<close>): a failed overdrive response of host 1, with
  one overdrive request counted, and the sector of shard 0.
\<close>

theorem receive_outcomes_witness:
  "receive (fail (exampleRequest\<lparr>req_overdrive := True\<rparr>) (ErrorString ''timeout''))
      (exampleSlabDownload\<lparr>s_numOverdriving := 1\<rparr>) runningManager
     = Inr ((False, False),
         exampleSlabDownload\<lparr>s_numOverdriving := 0, s_numInflight := 0,
                               s_errs := [(1, ErrorString ''timeout'')]\<rparr>)
   \<and> receive (succeed exampleRequest [7, 7]) exampleSlabDownload runningManager
     = Inr ((True, True),
         exampleSlabDownload\<lparr>s_numInflight := 0, s_sectors := [Some [7, 7], None],
                               s_numCompleted := 1\<rparr>)"
  using receive_outcomes [of "fail (exampleRequest\<lparr>req_overdrive := True\<rparr>) (ErrorString ''timeout'')"
      "exampleSlabDownload\<lparr>s_numOverdriving := 1\<rparr>" runningManager]
    receive_outcomes [of "succeed exampleRequest [7, 7]" exampleSlabDownload runningManager]
  by (simp add: receive_def fail_def succeed_def exampleRequest_def exampleSlabDownload_def
      runningManager_def wrap64_def int_of_uint64_def)

section \<open>Properties of the slab range selector\<close>

lemma truncateLast_nonempty: "truncateLast x xs = Inr ys \<Longrightarrow> ys \<noteq> []"
  by (induction x xs arbitrary: ys rule: truncateLast.induct) (auto split: sum.splits)

text \<open>\<open>slabsForDownload\<close> never returns an empty list.\<close>

lemma slabsForDownload_nonempty: "slabsForDownload S offset len \<noteq> Inr []"
  by (auto simp: slabsForDownload_def split: prod.splits sum.splits dest: truncateLast_nonempty)

text \<open>
  C2. The claim: for every list of slices and every range that lies in it,
  \<^verbatim>\<open>slabsForDownload\<close> returns the sub-window of the slices that the range covers. The
  range \<open>[0, 0)\<close> lies in the empty list, the list of an object without slabs, and there
  \<^verbatim>\<open>slabsForDownload\<close> does not return: it indexes \<^verbatim>\<open>slabs[0]\<close> and panics with an index
  out of range. \<^verbatim>\<open>DownloadObject\<close> expects an empty result, which it tests with
  \<^verbatim>\<open>len(slabs) == 0\<close>. On two slices of 100 and 50 bytes the range \<open>[100, 110)\<close> lies in
  the second slice alone; the first loop tests \<^verbatim>\<open>firstOffset <= uint64(ss.Length)\<close>, so
  the result starts with the first slice, of which it keeps no byte.
\<close>

theorem slabsForDownload_empty_and_boundary:
  "unat (0 :: 64 word) + unat (0 :: 64 word) \<le> totalLength []
   \<and> slabsForDownload [] 0 0 = Inl IndexOutOfRange
   \<and> unat (100 :: 64 word) + unat (10 :: 64 word) \<le> totalLength [exampleSlice, exampleSlice2]
   \<and> slabsForDownload [exampleSlice, exampleSlice2] 100 10
       = Inr [exampleSlice\<lparr>Offset := 100, Length := 0\<rparr>, exampleSlice2\<lparr>Length := 10\<rparr>]"
  by (simp add: slabsForDownload_def cast32_def totalLength_def exampleSlice_def
      exampleSlice2_def)

text \<open>
  \<^verbatim>\<open>cast32\<close> guards the 64-bit remainders only: the addition \<^verbatim>\<open>slabs[0].Offset += ...\<close>
  is done in \<^verbatim>\<open>uint32\<close> and wraps without a panic.
\<close>

lemma slabsForDownload_offset_wraps:
  "slabsForDownload [exampleSlice\<lparr>Offset := 0xFFFFFFFF\<rparr>] 5 5
     = Inr [exampleSlice\<lparr>Offset := 4, Length := 5\<rparr>]"
  by (simp add: slabsForDownload_def cast32_def exampleSlice_def)

section \<open>Properties of the start of an object download\<close>

text \<open>
  C8. The claim: with \<open>length = 0\<close> the computed slab list is empty, \<^verbatim>\<open>DownloadObject\<close>
  returns at once and no sector request is issued; \<^verbatim>\<open>DownloadObject\<close> has the early
  return \<^verbatim>\<open>if len(slabs) == 0\<close> for it. On an object of one slice, with offset 0 and
  length 0, \<^verbatim>\<open>slabsForDownload\<close> returns that slice with \<^verbatim>\<open>Length\<close> 0, not the empty
  list. With a contract for the slab's host \<^verbatim>\<open>DownloadObject\<close> starts the download of
  slab 0, whose first request is put on the queue of the host's downloader. With no
  contract it reports that there are not enough hosts; on an object without slices it
  panics.
\<close>

theorem DownloadObject_zero_length_launches:
  "slabsForDownload [exampleSlice] 0 0 = Inr [exampleSlice\<lparr>Length := 0\<rparr>]
   \<and> DownloadObject_start [exampleSlice] 0 0 [\<lparr>c_ID = 0, c_HostKey = 1\<rparr>]
       = LaunchesDownloadSlab (exampleSlice\<lparr>Length := 0\<rparr>) 0
   \<and> (case launchFirst (\<lambda>hosts. 1) (newSlabDownload (0, 0) (exampleSlice\<lparr>Length := 0\<rparr>) 0)
              runningManager of
         (err, s', mgr') \<Rightarrow>
           err = None \<and> s_numInflight s' = 1 \<and> s_numLaunched s' = 1
           \<and> map_option d_queue (map_of (m_downloaders mgr') 1)
               = Some [\<lparr>req_length = 0, req_offset = 0, req_root = 7, req_hk = 1,
                        req_overdrive = False, req_sectorIndex = 0\<rparr>])
   \<and> DownloadObject_start [exampleSlice] 0 0 [] = NotEnoughHosts 0 1
   \<and> DownloadObject_start [] 0 0 [] = StartPanics IndexOutOfRange"
  by (simp add: slabsForDownload_def DownloadObject_start_def cast32_def exampleSlice_def
      launchFirst_def nextRequest_def newSlabDownload_def sectorsOf_def launch_def
      mgr_launch_def enqueue_def runningManager_def Let_def)

section \<open>The invariant of a slab download\<close>

lemma collectedErrors_append [simp]:
  "collectedErrors (xs @ ys) = collectedErrors xs @ collectedErrors ys"
  by (induction xs) (auto split: option.splits)

lemma pop_concat:
  "sectorsOf h hts = x # rest \<Longrightarrow>
     \<exists>pre post. concat (map snd hts) = pre @ x # post
        \<and> concat (map snd (AList.update h rest hts)) = pre @ post"
proof (induction hts)
  case Nil
  then show ?case by (simp add: sectorsOf_def)
next
  case (Cons p ps)
  show ?case
  proof (cases "fst p = h")
    case True
    with Cons.prems have "snd p = x # rest"
      by (cases p) (simp add: sectorsOf_def)
    with True have "concat (map snd (p # ps)) = [] @ x # (rest @ concat (map snd ps))
        \<and> concat (map snd (AList.update h rest (p # ps))) = [] @ (rest @ concat (map snd ps))"
      by (cases p) simp
    then show ?thesis by blast
  next
    case False
    with Cons.prems have "sectorsOf h ps = x # rest"
      by (cases p) (simp add: sectorsOf_def)
    from Cons.IH [OF this] obtain pre post where
      "concat (map snd ps) = pre @ x # post"
      "concat (map snd (AList.update h rest ps)) = pre @ post"
      by blast
    with False have "concat (map snd (p # ps)) = (snd p @ pre) @ x # post
        \<and> concat (map snd (AList.update h rest (p # ps))) = (snd p @ pre) @ post"
      by (cases p) simp
    then show ?thesis by blast
  qed
qed

lemma push_concat:
  "\<exists>pre post. concat (map snd hts) = pre @ post
      \<and> concat (map snd (AList.update h (sectorsOf h hts @ [x]) hts)) = pre @ x # post"
proof (induction hts)
  case Nil
  show ?case by (simp add: sectorsOf_def)
next
  case (Cons p ps)
  show ?case
  proof (cases "fst p = h")
    case True
    then have "concat (map snd (p # ps)) = snd p @ concat (map snd ps)
        \<and> concat (map snd (AList.update h (sectorsOf h (p # ps) @ [x]) (p # ps)))
            = snd p @ x # concat (map snd ps)"
      by (cases p) (simp add: sectorsOf_def)
    then show ?thesis by blast
  next
    case False
    then have eq: "sectorsOf h (p # ps) = sectorsOf h ps"
      by (cases p) (simp add: sectorsOf_def)
    from Cons.IH obtain pre post where
      "concat (map snd ps) = pre @ post"
      "concat (map snd (AList.update h (sectorsOf h ps @ [x]) ps)) = pre @ x # post"
      by blast
    with False eq have "concat (map snd (p # ps)) = (snd p @ pre) @ post
        \<and> concat (map snd (AList.update h (sectorsOf h (p # ps) @ [x]) (p # ps)))
            = (snd p @ pre) @ x # post"
      by (cases p) simp
    then show ?thesis by blast
  qed
qed

lemma remainingIdx_build:
  "distinct (map si_index (concat (map snd hts))) \<Longrightarrow>
   \<forall>i \<in> set (map si_index (concat (map snd hts))). i < k \<Longrightarrow>
     distinct (map si_index (concat (map snd (buildHostToSectors k ss hts))))
     \<and> set (map si_index (concat (map snd (buildHostToSectors k ss hts))))
         = set (map si_index (concat (map snd hts))) \<union> {k..<k + int (length ss)}"
proof (induction ss arbitrary: k hts)
  case Nil
  then show ?case by simp
next
  case (Cons s ss)
  define x where "x = \<lparr>si_sector = s, si_index = k\<rparr>"
  define hts' where "hts' = AList.update (Host s) (sectorsOf (Host s) hts @ [x]) hts"
  obtain pre post where
    old: "concat (map snd hts) = pre @ post"
    and new: "concat (map snd hts') = pre @ x # post"
    using push_concat [of hts "Host s" x] unfolding hts'_def by blast
  have idx: "map si_index (concat (map snd hts')) = map si_index pre @ k # map si_index post"
    by (simp add: new x_def)
  have notin: "k \<notin> set (map si_index (concat (map snd hts)))"
    using Cons.prems(2) by auto
  have d: "distinct (map si_index (concat (map snd hts')))"
    using Cons.prems(1) notin unfolding idx old by auto
  have b: "\<forall>i \<in> set (map si_index (concat (map snd hts'))). i < k + 1"
  proof
    fix i
    assume "i \<in> set (map si_index (concat (map snd hts')))"
    then have "i = k \<or> i \<in> set (map si_index (concat (map snd hts)))"
      unfolding idx old by auto
    moreover have "i < k" if "i \<in> set (map si_index (concat (map snd hts)))"
      using Cons.prems(2) that by blast
    ultimately show "i < k + 1"
      by fastforce
  qed
  have st: "set (map si_index (concat (map snd hts')))
      = insert k (set (map si_index (concat (map snd hts))))"
    unfolding idx old by auto
  from Cons.IH [OF d b] show ?case
    unfolding st by (auto simp: hts'_def x_def)
qed

lemma filled_replicate [simp]: "filled (replicate n None) = {}"
  by (auto simp: filled_def)

lemma finite_filled [simp]: "finite (filled m)"
  by (simp add: filled_def)

lemma card_filled_le: "card (filled m) \<le> length m"
proof -
  have "filled m \<subseteq> {..<length m}" by (auto simp: filled_def)
  then have "card (filled m) \<le> card {..<length m}" by (intro card_mono) simp_all
  then show ?thesis by simp
qed

lemma filled_update:
  "j < length m \<Longrightarrow> filled (m[j := Some x]) = insert j (filled m)"
  by (auto simp: filled_def nth_list_update)

lemma runInv_starts:
  "runInv (length (Shards (Slab slc)))
     \<lparr>run_slab = newSlabDownload region slc slabIndex, run_mgr = mgr,
      run_created = [], run_queued = [], run_received = []\<rparr>"
proof -
  have "distinct (map si_index (concat (map snd (buildHostToSectors 0 (Shards (Slab slc)) []))))
     \<and> set (map si_index (concat (map snd (buildHostToSectors 0 (Shards (Slab slc)) []))))
         = {0..<int (length (Shards (Slab slc)))}"
    using remainingIdx_build [of "[]" 0 "Shards (Slab slc)"] by simp
  then show ?thesis
    by (auto simp: runInv_def pendingIdx_def remainingIdx_def newSlabDownload_def)
qed

lemma runInv_environment: "runInv n r \<Longrightarrow> runInv n (r\<lparr>run_mgr := mgr'\<rparr>)"
  by (simp add: runInv_def pendingIdx_def)

lemma nextRequest_frame:
  assumes "nextRequest fastest overdrive s = (req, s')"
  shows "s_sectors s' = s_sectors s" and "s_numCompleted s' = s_numCompleted s"
    and "s_errs s' = s_errs s" and "s_minShards s' = s_minShards s"
    and "s_numInflight s' = s_numInflight s" and "s_numLaunched s' = s_numLaunched s"
  using assms
  by (auto simp: nextRequest_def Let_def split: list.splits if_splits)

lemma nextRequest_pops:
  assumes "nextRequest fastest overdrive s = (req, s')"
  shows "(req = None \<and> s_hostToSectors s' = s_hostToSectors s)
       \<or> (\<exists>q x rest h. req = Some q \<and> sectorsOf h (s_hostToSectors s) = x # rest
             \<and> s_hostToSectors s' = AList.update h rest (s_hostToSectors s)
             \<and> req_sectorIndex q = si_index x)"
proof -
  define s1 where
    "s1 = (if length (sectorsOf (s_curr s) (s_hostToSectors s)) = 0
           then s\<lparr>s_curr := fastest (filter (\<lambda>host. host \<notin> s_used s)
                                 (map fst (s_hostToSectors s))),
                  s_used := insert (fastest (filter (\<lambda>host. host \<notin> s_used s)
                                      (map fst (s_hostToSectors s)))) (s_used s)\<rparr>
           else s)"
  have hts1: "s_hostToSectors s1 = s_hostToSectors s"
    by (simp add: s1_def)
  have nr: "nextRequest fastest overdrive s
      = (case sectorsOf (s_curr s1) (s_hostToSectors s1) of
           [] \<Rightarrow> (None, s1)
         | sector # rest \<Rightarrow>
             (Some \<lparr>req_length = s_length s1, req_offset = s_offset s1,
                    req_root = Root (si_sector sector), req_hk = Host (si_sector sector),
                    req_overdrive = overdrive, req_sectorIndex = si_index sector\<rparr>,
              s1\<lparr>s_hostToSectors := AList.update (s_curr s1) rest (s_hostToSectors s1)\<rparr>))"
    unfolding nextRequest_def s1_def Let_def by (rule refl)
  show ?thesis
  proof (cases "sectorsOf (s_curr s1) (s_hostToSectors s1)")
    case Nil
    then have "nextRequest fastest overdrive s = (None, s1)"
      by (simp add: nr)
    with assms hts1 show ?thesis by simp
  next
    case (Cons x rest)
    then have "nextRequest fastest overdrive s
        = (Some \<lparr>req_length = s_length s1, req_offset = s_offset s1,
                   req_root = Root (si_sector x), req_hk = Host (si_sector x),
                   req_overdrive = overdrive, req_sectorIndex = si_index x\<rparr>,
           s1\<lparr>s_hostToSectors := AList.update (s_curr s1) rest (s_hostToSectors s1)\<rparr>)"
      by (simp add: nr)
    with assms Cons hts1 have
      "req = Some \<lparr>req_length = s_length s1, req_offset = s_offset s1,
                   req_root = Root (si_sector x), req_hk = Host (si_sector x),
                   req_overdrive = overdrive, req_sectorIndex = si_index x\<rparr>
       \<and> sectorsOf (s_curr s1) (s_hostToSectors s) = x # rest
       \<and> s_hostToSectors s' = AList.update (s_curr s1) rest (s_hostToSectors s)
       \<and> req_sectorIndex \<lparr>req_length = s_length s1, req_offset = s_offset s1,
                   req_root = Root (si_sector x), req_hk = Host (si_sector x),
                   req_overdrive = overdrive, req_sectorIndex = si_index x\<rparr> = si_index x"
      by auto
    then show ?thesis by blast
  qed
qed

lemma runInv_requests:
  assumes inv: "runInv n r"
    and nr: "nextRequest fastest overdrive (run_slab r) = (req, s')"
  shows "runInv n (r\<lparr>run_slab := s',
                      run_created := run_created r @ (case req of None \<Rightarrow> [] | Some q \<Rightarrow> [q])\<rparr>)"
proof -
  note fr = nextRequest_frame [OF nr]
  from nextRequest_pops [OF nr] show ?thesis
  proof
    assume "req = None \<and> s_hostToSectors s' = s_hostToSectors (run_slab r)"
    with inv fr show ?thesis
      by (simp add: runInv_def pendingIdx_def remainingIdx_def)
  next
    assume "\<exists>q x rest h. req = Some q \<and> sectorsOf h (s_hostToSectors (run_slab r)) = x # rest
             \<and> s_hostToSectors s' = AList.update h rest (s_hostToSectors (run_slab r))
             \<and> req_sectorIndex q = si_index x"
    then obtain q x rest h where
      req: "req = Some q"
      and so: "sectorsOf h (s_hostToSectors (run_slab r)) = x # rest"
      and hts: "s_hostToSectors s' = AList.update h rest (s_hostToSectors (run_slab r))"
      and qi: "req_sectorIndex q = si_index x"
      by blast
    from pop_concat [OF so] obtain pre post where
      old: "concat (map snd (s_hostToSectors (run_slab r))) = pre @ x # post"
      and new: "concat (map snd (AList.update h rest (s_hostToSectors (run_slab r)))) = pre @ post"
      by blast
    have p_old: "pendingIdx r = map si_index pre @ si_index x # map si_index post
        @ map req_sectorIndex (run_created r) @ map req_sectorIndex (run_queued r)"
      by (simp add: pendingIdx_def remainingIdx_def old)
    have p_new: "pendingIdx (r\<lparr>run_slab := s', run_created := run_created r @ [q]\<rparr>)
        = map si_index pre @ map si_index post
          @ map req_sectorIndex (run_created r) @ si_index x # map req_sectorIndex (run_queued r)"
      by (simp add: pendingIdx_def remainingIdx_def hts new qi)
    have same_set: "set (pendingIdx (r\<lparr>run_slab := s', run_created := run_created r @ [q]\<rparr>))
        = set (pendingIdx r)"
      unfolding p_old p_new by auto
    have d: "distinct (pendingIdx (r\<lparr>run_slab := s', run_created := run_created r @ [q]\<rparr>))"
      using inv unfolding runInv_def p_old p_new by auto
    show ?thesis
      using inv d fr unfolding runInv_def same_set req
      by (simp add: same_set)
  qed
qed

lemma launch_frame:
  assumes "launch req s mgr = (err, s', mgr')"
  shows "s_sectors s' = s_sectors s" and "s_hostToSectors s' = s_hostToSectors s"
    and "s_numCompleted s' = s_numCompleted s" and "s_errs s' = s_errs s"
    and "s_minShards s' = s_minShards s"
  using assms
  by (auto simp: launch_def split: option.splits prod.splits)

lemma runInv_launches:
  assumes inv: "runInv n r"
    and cr: "run_created r = before @ q # after"
    and la: "launch (Some q) (run_slab r) (run_mgr r) = (err, s', mgr')"
  shows "runInv n (r\<lparr>run_slab := s', run_mgr := mgr', run_created := before @ after,
                      run_queued := (if err = None then run_queued r @ [q] else run_queued r)\<rparr>)"
proof -
  note fr = launch_frame [OF la]
  let ?r' = "r\<lparr>run_slab := s', run_mgr := mgr', run_created := before @ after,
                run_queued := (if err = None then run_queued r @ [q] else run_queued r)\<rparr>"
  have p_old: "pendingIdx r = remainingIdx (run_slab r) @ map req_sectorIndex before
      @ req_sectorIndex q # map req_sectorIndex after @ map req_sectorIndex (run_queued r)"
    by (simp add: pendingIdx_def cr)
  have p_new: "pendingIdx ?r' = remainingIdx (run_slab r) @ map req_sectorIndex before
      @ map req_sectorIndex after @ map req_sectorIndex (run_queued r)
      @ (if err = None then [req_sectorIndex q] else [])"
    by (simp add: pendingIdx_def remainingIdx_def fr)
  have sub: "set (pendingIdx ?r') \<subseteq> set (pendingIdx r)"
    unfolding p_old p_new by auto
  have d: "distinct (pendingIdx ?r')"
    using inv unfolding runInv_def p_old p_new by auto
  have pend: "\<forall>i \<in> set (pendingIdx ?r'). 0 \<le> i \<and> i < int n \<and> s_sectors s' ! nat i = None"
    using inv sub fr(1) unfolding runInv_def by auto
  show ?thesis
    using inv fr unfolding runInv_def
    by (intro conjI d) (use pend in simp_all)
qed

lemma receive_fail:
  "receive (fail q e) s mgr
     = Inr ((False, False),
         s\<lparr>s_numOverdriving :=
              (if req_overdrive q then s_numOverdriving s - 1 else s_numOverdriving s),
            s_numInflight := s_numInflight s - 1,
            s_errs := s_errs s @ [(req_hk q, e)]\<rparr>)"
  by (simp add: receive_def fail_def Let_def)

lemma receive_succeed:
  "receive (succeed q sector) s mgr = Inr (res, s') \<Longrightarrow>
     0 \<le> req_sectorIndex q \<and> req_sectorIndex q < int (length (s_sectors s))
     \<and> s_sectors s' = (s_sectors s)[nat (req_sectorIndex q) := Some sector]
     \<and> s_numCompleted s' = wrap64 (s_numCompleted s + 1)
     \<and> s_errs s' = s_errs s \<and> s_hostToSectors s' = s_hostToSectors s"
  by (auto simp: receive_def succeed_def Let_def split: if_splits)

lemma runInv_receives_fail:
  assumes inv: "runInv n r"
    and qu: "run_queued r = before @ q # after"
    and rc: "receive (fail q e) (run_slab r) (run_mgr r) = Inr (res, s')"
  shows "runInv n (r\<lparr>run_slab := s', run_queued := before @ after,
                      run_received := run_received r @ [fail q e]\<rparr>)"
proof -
  let ?r' = "r\<lparr>run_slab := s', run_queued := before @ after,
                run_received := run_received r @ [fail q e]\<rparr>"
  from rc have s': "s' = (run_slab r)\<lparr>s_numOverdriving :=
              (if req_overdrive q then s_numOverdriving (run_slab r) - 1
               else s_numOverdriving (run_slab r)),
            s_numInflight := s_numInflight (run_slab r) - 1,
            s_errs := s_errs (run_slab r) @ [(req_hk q, e)]\<rparr>"
    by (simp add: receive_fail)
  have p_old: "pendingIdx r = remainingIdx (run_slab r) @ map req_sectorIndex (run_created r)
      @ map req_sectorIndex before @ req_sectorIndex q # map req_sectorIndex after"
    by (simp add: pendingIdx_def qu)
  have p_new: "pendingIdx ?r' = remainingIdx (run_slab r) @ map req_sectorIndex (run_created r)
      @ map req_sectorIndex before @ map req_sectorIndex after"
    by (simp add: pendingIdx_def remainingIdx_def s')
  have sub: "set (pendingIdx ?r') \<subseteq> set (pendingIdx r)"
    unfolding p_old p_new by auto
  have d: "distinct (pendingIdx ?r')"
    using inv unfolding runInv_def p_old p_new by auto
  have pend: "\<forall>i \<in> set (pendingIdx ?r'). 0 \<le> i \<and> i < int n \<and> s_sectors s' ! nat i = None"
    using inv sub unfolding runInv_def by (auto simp: s')
  have errs: "s_errs s' = collectedErrors (run_received r @ [fail q e])"
    using inv unfolding runInv_def by (simp add: s' fail_def)
  have err: "resp_err (fail q e) \<noteq> None"
    by (simp add: fail_def)
  show ?thesis
    unfolding runInv_def
  proof (intro conjI)
    show "length (s_sectors (run_slab ?r')) = n"
      using inv by (simp add: runInv_def s')
    show "distinct (pendingIdx ?r')" by (rule d)
    show "\<forall>i\<in>set (pendingIdx ?r'). 0 \<le> i \<and> i < int n \<and> s_sectors (run_slab ?r') ! nat i = None"
      using pend by simp
    show "\<forall>resp\<in>set (run_received ?r'). resp_err resp = None \<longrightarrow>
            0 \<le> resp_sectorIndex resp \<and> resp_sectorIndex resp < int n
            \<and> resp_sector resp \<noteq> None
            \<and> s_sectors (run_slab ?r') ! nat (resp_sectorIndex resp) = resp_sector resp"
      using inv err by (auto simp: runInv_def s')
    show "\<forall>j\<in>filled (s_sectors (run_slab ?r')).
            \<exists>resp\<in>set (run_received ?r'). resp_err resp = None \<and> resp_sectorIndex resp = int j"
      using inv by (auto simp: runInv_def s')
    show "s_numCompleted (run_slab ?r') = int (card (filled (s_sectors (run_slab ?r'))))"
      using inv by (simp add: runInv_def s')
    show "s_errs (run_slab ?r') = collectedErrors (run_received ?r')"
      using errs by simp
  qed
qed

lemma runInv_receives_succeed:
  assumes inv: "runInv n r"
    and bound: "int n < 2 ^ 63"
    and qu: "run_queued r = before @ q # after"
    and rc: "receive (succeed q sector) (run_slab r) (run_mgr r) = Inr (res, s')"
  shows "runInv n (r\<lparr>run_slab := s', run_queued := before @ after,
                      run_received := run_received r @ [succeed q sector]\<rparr>)"
proof -
  let ?r' = "r\<lparr>run_slab := s', run_queued := before @ after,
                run_received := run_received r @ [succeed q sector]\<rparr>"
  define i where "i = req_sectorIndex q"
  define m where "m = s_sectors (run_slab r)"
  from receive_succeed [OF rc] have
    sec: "s_sectors s' = m[nat i := Some sector]"
    and num: "s_numCompleted s' = wrap64 (s_numCompleted (run_slab r) + 1)"
    and errs: "s_errs s' = s_errs (run_slab r)"
    and hts: "s_hostToSectors s' = s_hostToSectors (run_slab r)"
    by (simp_all add: i_def m_def)
  have len: "length m = n"
    using inv by (simp add: runInv_def m_def)
  have p_old: "pendingIdx r = remainingIdx (run_slab r) @ map req_sectorIndex (run_created r)
      @ map req_sectorIndex before @ i # map req_sectorIndex after"
    by (simp add: pendingIdx_def qu i_def)
  have p_new: "pendingIdx ?r' = remainingIdx (run_slab r) @ map req_sectorIndex (run_created r)
      @ map req_sectorIndex before @ map req_sectorIndex after"
    by (simp add: pendingIdx_def remainingIdx_def hts)
  have d_old: "distinct (pendingIdx r)"
    using inv by (simp add: runInv_def)
  have sub: "set (pendingIdx ?r') \<subseteq> set (pendingIdx r)"
    unfolding p_old p_new by auto
  have d: "distinct (pendingIdx ?r')"
    using d_old unfolding p_old p_new by auto
  have i_notin: "i \<notin> set (pendingIdx ?r')"
    using d_old unfolding p_old p_new by auto
  have i_in: "i \<in> set (pendingIdx r)"
    unfolding p_old by simp
  have pend_old: "\<forall>k \<in> set (pendingIdx r). 0 \<le> k \<and> k < int n \<and> m ! nat k = None"
    using inv by (simp add: runInv_def m_def)
  from pend_old i_in have i0: "0 \<le> i" and i_n: "i < int n" and i_none: "m ! nat i = None"
    by blast+
  have nat_i: "nat i < length m"
    using i0 i_n len by simp
  have rec_old: "\<forall>resp \<in> set (run_received r). resp_err resp = None \<longrightarrow>
            0 \<le> resp_sectorIndex resp \<and> resp_sectorIndex resp < int n
            \<and> resp_sector resp \<noteq> None
            \<and> m ! nat (resp_sectorIndex resp) = resp_sector resp"
    using inv by (simp add: runInv_def m_def)
  have fil_old: "\<forall>j \<in> filled m.
            \<exists>resp \<in> set (run_received r). resp_err resp = None \<and> resp_sectorIndex resp = int j"
    using inv by (simp add: runInv_def m_def)
  have fil_new: "filled (m[nat i := Some sector]) = insert (nat i) (filled m)"
    using nat_i by (rule filled_update)
  have i_unfilled: "nat i \<notin> filled m"
    using i_none by (simp add: filled_def)
  have card_new: "card (filled (m[nat i := Some sector])) = card (filled m) + 1"
    using i_unfilled by (simp add: fil_new)
  have "card (filled (m[nat i := Some sector])) \<le> length (m[nat i := Some sector])"
    by (rule card_filled_le)
  then have card_le: "card (filled m) + 1 \<le> n"
    using card_new len by simp
  have num_old: "s_numCompleted (run_slab r) = int (card (filled m))"
    using inv by (simp add: runInv_def m_def)
  have "wrap64 (int (card (filled m)) + 1) = int (card (filled m)) + 1"
    using card_le bound by (intro wrap64_id) simp_all
  then have num_new: "s_numCompleted s' = int (card (filled (s_sectors s')))"
    by (simp add: num num_old sec card_new)
  show ?thesis
    unfolding runInv_def
  proof (intro conjI)
    show "length (s_sectors (run_slab ?r')) = n"
      by (simp add: sec len)
    show "distinct (pendingIdx ?r')" by (rule d)
    show "\<forall>k\<in>set (pendingIdx ?r'). 0 \<le> k \<and> k < int n \<and> s_sectors (run_slab ?r') ! nat k = None"
    proof
      fix k
      assume k: "k \<in> set (pendingIdx ?r')"
      with sub have "k \<in> set (pendingIdx r)" by blast
      with pend_old have k0: "0 \<le> k" and kn: "k < int n" and kN: "m ! nat k = None"
        by blast+
      from k i_notin have "k \<noteq> i" by blast
      with k0 i0 have "nat k \<noteq> nat i" by simp
      then show "0 \<le> k \<and> k < int n \<and> s_sectors (run_slab ?r') ! nat k = None"
        using k0 kn kN by (simp add: sec)
    qed
    show "\<forall>resp\<in>set (run_received ?r'). resp_err resp = None \<longrightarrow>
            0 \<le> resp_sectorIndex resp \<and> resp_sectorIndex resp < int n
            \<and> resp_sector resp \<noteq> None
            \<and> s_sectors (run_slab ?r') ! nat (resp_sectorIndex resp) = resp_sector resp"
    proof (intro ballI impI)
      fix resp
      assume "resp \<in> set (run_received ?r')" and ok: "resp_err resp = None"
      then have "resp \<in> set (run_received r) \<or> resp = succeed q sector" by auto
      then show "0 \<le> resp_sectorIndex resp \<and> resp_sectorIndex resp < int n
            \<and> resp_sector resp \<noteq> None
            \<and> s_sectors (run_slab ?r') ! nat (resp_sectorIndex resp) = resp_sector resp"
      proof
        assume "resp \<in> set (run_received r)"
        with rec_old ok have a: "0 \<le> resp_sectorIndex resp" "resp_sectorIndex resp < int n"
          "resp_sector resp \<noteq> None" "m ! nat (resp_sectorIndex resp) = resp_sector resp"
          by blast+
        from a(3,4) i_none have "nat (resp_sectorIndex resp) \<noteq> nat i" by auto
        with a show ?thesis by (simp add: sec)
      next
        assume "resp = succeed q sector"
        then show ?thesis
          using i0 i_n nat_i by (simp add: succeed_def sec i_def)
      qed
    qed
    show "\<forall>j\<in>filled (s_sectors (run_slab ?r')).
            \<exists>resp\<in>set (run_received ?r'). resp_err resp = None \<and> resp_sectorIndex resp = int j"
    proof
      fix j
      assume "j \<in> filled (s_sectors (run_slab ?r'))"
      then have "j = nat i \<or> j \<in> filled m"
        by (simp add: sec fil_new)
      then show "\<exists>resp\<in>set (run_received ?r'). resp_err resp = None \<and> resp_sectorIndex resp = int j"
      proof
        assume "j = nat i"
        then have "resp_err (succeed q sector) = None
            \<and> resp_sectorIndex (succeed q sector) = int j"
          using i0 by (simp add: succeed_def i_def)
        then show ?thesis by auto
      next
        assume "j \<in> filled m"
        with fil_old obtain resp where "resp \<in> set (run_received r)"
          "resp_err resp = None \<and> resp_sectorIndex resp = int j" by blast
        then show ?thesis by auto
      qed
    qed
    show "s_numCompleted (run_slab ?r') = int (card (filled (s_sectors (run_slab ?r'))))"
      using num_new by simp
    show "s_errs (run_slab ?r') = collectedErrors (run_received ?r')"
      using inv by (simp add: runInv_def errs succeed_def)
  qed
qed

lemma slabRun_runInv:
  assumes "slabRun slc r" and "int (length (Shards (Slab slc))) < 2 ^ 63"
  shows "runInv (length (Shards (Slab slc))) r"
  using assms(1)
proof (induction rule: slabRun.induct)
  case (starts region slabIndex mgr)
  show ?case by (rule runInv_starts)
next
  case (environment r mgr')
  then show ?case by (intro runInv_environment)
next
  case (requests r fastest overdrive req s')
  then show ?case by (intro runInv_requests)
next
  case (launches r before q after err s' mgr')
  then show ?case by (intro runInv_launches)
next
  case (receives r before q after resp sector e res s')
  from receives.hyps(3) show ?case
  proof
    assume "resp = succeed q sector"
    with receives assms(2) show ?thesis
      by (auto intro: runInv_receives_succeed)
  next
    assume "resp = fail q e"
    with receives show ?thesis
      by (auto intro: runInv_receives_fail)
  qed
qed

text \<open>
  In a run, every request that waits for its response carries an index inside the shard
  matrix, so the store in \<open>receive\<close> does not panic on the response made from it.
\<close>

lemma slabRun_queued_in_range:
  assumes "slabRun slc r" and "int (length (Shards (Slab slc))) < 2 ^ 63"
    and "q \<in> set (run_queued r)"
  shows "0 \<le> req_sectorIndex q \<and> req_sectorIndex q < int (length (s_sectors (run_slab r)))"
proof -
  from slabRun_runInv [OF assms(1,2)] have inv: "runInv (length (Shards (Slab slc))) r" .
  have "req_sectorIndex q \<in> set (pendingIdx r)"
    using assms(3) by (simp add: pendingIdx_def)
  with inv show ?thesis
    unfolding runInv_def by auto
qed

text \<open>
  C1. In every state of a run of a slab download (of a slab with fewer than \<open>2^63\<close>
  shards, as every Go slice has): when \<open>finish\<close> returns the shard matrix,
  \<open>numCompleted \<ge> minShards\<close>, the matrix has one entry per shard and exactly
  \<open>numCompleted\<close> entries that are not nil, every successful response that was received
  has its sector at the index it carries, and every entry that is not nil comes from
  such a response. When \<open>numCompleted < minShards\<close>, \<open>finish\<close> returns the error that
  carries \<open>numCompleted\<close>, \<open>numInflight\<close>, \<open>numLaunched\<close>, the number of downloaders and
  the host errors of all failed responses that were received.
\<close>

theorem finish_after_run:
  assumes "slabRun slc r" and "int (length (Shards (Slab slc))) < 2 ^ 63"
  shows "(\<forall>m. finish (run_slab r) (run_mgr r) = Inr m \<longrightarrow>
            s_minShards (run_slab r) \<le> s_numCompleted (run_slab r)
          \<and> m = s_sectors (run_slab r)
          \<and> length m = length (Shards (Slab slc))
          \<and> int (card {j. j < length m \<and> m ! j \<noteq> None}) = s_numCompleted (run_slab r)
          \<and> (\<forall>resp \<in> set (run_received r). resp_err resp = None \<longrightarrow>
                0 \<le> resp_sectorIndex resp \<and> nat (resp_sectorIndex resp) < length m
                \<and> resp_sector resp \<noteq> None
                \<and> m ! nat (resp_sectorIndex resp) = resp_sector resp)
          \<and> (\<forall>j. j < length m \<and> m ! j \<noteq> None \<longrightarrow>
                (\<exists>resp \<in> set (run_received r).
                   resp_err resp = None \<and> resp_sectorIndex resp = int j)))
       \<and> (s_numCompleted (run_slab r) < s_minShards (run_slab r) \<longrightarrow>
            finish (run_slab r) (run_mgr r)
              = Inl (FailedToDownloadSlab (s_numCompleted (run_slab r))
                       (s_numInflight (run_slab r)) (s_numLaunched (run_slab r))
                       (numDownloaders (run_mgr r)) (collectedErrors (run_received r))))"
proof -
  from slabRun_runInv [OF assms] have inv: "runInv (length (Shards (Slab slc))) r" .
  define m where "m = s_sectors (run_slab r)"
  have len: "length m = length (Shards (Slab slc))"
    using inv by (simp add: runInv_def m_def)
  have fil: "{j. j < length m \<and> m ! j \<noteq> None} = filled m"
    by (simp add: filled_def)
  have num0: "s_numCompleted (run_slab r) = int (card (filled m))"
    using inv by (simp add: runInv_def m_def)
  have num: "int (card {j. j < length m \<and> m ! j \<noteq> None}) = s_numCompleted (run_slab r)"
    unfolding fil num0 by (rule refl)
  have rec: "\<forall>resp \<in> set (run_received r). resp_err resp = None \<longrightarrow>
                0 \<le> resp_sectorIndex resp \<and> nat (resp_sectorIndex resp) < length m
                \<and> resp_sector resp \<noteq> None
                \<and> m ! nat (resp_sectorIndex resp) = resp_sector resp"
    using inv len by (auto simp: runInv_def m_def)
  have src: "\<forall>j. j < length m \<and> m ! j \<noteq> None \<longrightarrow>
                (\<exists>resp \<in> set (run_received r).
                   resp_err resp = None \<and> resp_sectorIndex resp = int j)"
  proof -
    from inv have "\<forall>j \<in> filled m.
        \<exists>resp \<in> set (run_received r). resp_err resp = None \<and> resp_sectorIndex resp = int j"
      by (simp add: runInv_def m_def)
    then show ?thesis
      unfolding fil [symmetric] by blast
  qed
  have errs: "s_errs (run_slab r) = collectedErrors (run_received r)"
    using inv by (simp add: runInv_def)
  show ?thesis
  proof (intro conjI allI impI)
    fix m'
    assume fin: "finish (run_slab r) (run_mgr r) = Inr m'"
    then have m': "m' = m" and ge: "s_minShards (run_slab r) \<le> s_numCompleted (run_slab r)"
      by (auto simp: finish_def m_def split: if_splits)
    show "s_minShards (run_slab r) \<le> s_numCompleted (run_slab r)" by (rule ge)
    show "m' = s_sectors (run_slab r)" by (simp add: m' m_def)
    show "length m' = length (Shards (Slab slc))" by (simp add: m' len)
    show "int (card {j. j < length m' \<and> m' ! j \<noteq> None}) = s_numCompleted (run_slab r)"
      unfolding m' by (rule num)
    show "\<forall>resp \<in> set (run_received r). resp_err resp = None \<longrightarrow>
                0 \<le> resp_sectorIndex resp \<and> nat (resp_sectorIndex resp) < length m'
                \<and> resp_sector resp \<noteq> None
                \<and> m' ! nat (resp_sectorIndex resp) = resp_sector resp"
      unfolding m' by (rule rec)
    show "\<exists>resp \<in> set (run_received r). resp_err resp = None \<and> resp_sectorIndex resp = int j"
      if "j < length m' \<and> m' ! j \<noteq> None" for j
      using src that unfolding m' by blast
  next
    assume "s_numCompleted (run_slab r) < s_minShards (run_slab r)"
    then show "finish (run_slab r) (run_mgr r)
              = Inl (FailedToDownloadSlab (s_numCompleted (run_slab r))
                       (s_numInflight (run_slab r)) (s_numLaunched (run_slab r))
                       (numDownloaders (run_mgr r)) (collectedErrors (run_received r)))"
      by (simp add: finish_def errs)
  qed
qed

lemma launchedRun_reachable: "slabRun exampleSlabSlice launchedRun"
proof -
  define r0 :: "unit slabRunState" where
    "r0 = \<lparr>run_slab = newSlabDownload (0, 64) exampleSlabSlice 0, run_mgr = runningManager,
           run_created = [], run_queued = [], run_received = []\<rparr>"
  define s1 where "s1 = exampleSlabDownload\<lparr>s_numInflight := 0, s_numLaunched := 0\<rparr>"
  have 0: "slabRun exampleSlabSlice r0"
    unfolding r0_def by (rule slabRun.starts)
  have n: "nextRequest (\<lambda>hosts. 1) False (run_slab r0) = (Some exampleRequest, s1)"
    by (simp add: r0_def s1_def nextRequest_def newSlabDownload_def exampleSlabSlice_def
        sectorsOf_def exampleRequest_def exampleSlabDownload_def Let_def)
  have 1: "slabRun exampleSlabSlice (r0\<lparr>run_slab := s1, run_created := [exampleRequest]\<rparr>)"
    using slabRun.requests [OF 0 n] by (simp add: r0_def)
  have l: "launch (Some exampleRequest) s1 runningManager = (None, exampleSlabDownload, launchedManager)"
    by (simp add: launch_def mgr_launch_def s1_def launchedManager_def exampleRequest_def
        exampleSlabDownload_def runningManager_def)
  have "slabRun exampleSlabSlice
      (r0\<lparr>run_slab := s1, run_created := [exampleRequest]\<rparr>
         \<lparr>run_slab := exampleSlabDownload, run_mgr := launchedManager, run_created := [] @ [],
          run_queued := (if (None :: error option) = None
             then run_queued (r0\<lparr>run_slab := s1, run_created := [exampleRequest]\<rparr>) @ [exampleRequest]
             else run_queued (r0\<lparr>run_slab := s1, run_created := [exampleRequest]\<rparr>))\<rparr>)"
    by (rule slabRun.launches [OF 1, of "[]" exampleRequest "[]"]) (simp_all add: r0_def l)
  then show ?thesis
    by (simp add: launchedRun_def r0_def)
qed

lemma completedRun_reachable: "slabRun exampleSlabSlice completedRun"
proof -
  have "receive (succeed exampleRequest [7, 7]) (run_slab launchedRun) (run_mgr launchedRun)
      = Inr ((True, True), run_slab completedRun)"
    by (simp add: receive_def succeed_def launchedRun_def completedRun_def exampleRequest_def
        exampleSlabDownload_def launchedManager_def runningManager_def wrap64_def
        int_of_uint64_def)
  from slabRun.receives [OF launchedRun_reachable, of "[]" exampleRequest "[]"
      "succeed exampleRequest [7, 7]" "[7, 7]" "ErrorString []" _ _, OF _ _ this]
  show ?thesis
    by (simp add: launchedRun_def completedRun_def)
qed

lemma failedRun_reachable: "slabRun exampleSlabSlice failedRun"
proof -
  have "receive (fail exampleRequest (ErrorString ''timeout'')) (run_slab launchedRun)
        (run_mgr launchedRun)
      = Inr ((False, False), run_slab failedRun)"
    by (simp add: receive_def fail_def launchedRun_def failedRun_def exampleRequest_def
        exampleSlabDownload_def)
  from slabRun.receives [OF launchedRun_reachable, of "[]" exampleRequest "[]"
      "fail exampleRequest (ErrorString ''timeout'')" "[]" "ErrorString ''timeout''" _ _,
      OF _ _ this]
  show ?thesis
    by (simp add: launchedRun_def failedRun_def)
qed

text \<open>
  Witness for C1: the run \<open>completedRun\<close>, in which the sector of shard 0 arrived, and
  the run \<open>failedRun\<close>, in which the only request failed.
\<close>

theorem finish_after_run_witness:
  "slabRun exampleSlabSlice completedRun
   \<and> finish (run_slab completedRun) (run_mgr completedRun) = Inr [Some [7, 7], None]
   \<and> s_numCompleted (run_slab completedRun) = 1
   \<and> card {j. j < length [Some [7, 7 :: 8 word], None] \<and> [Some [7, 7 :: 8 word], None] ! j \<noteq> None} = 1
   \<and> slabRun exampleSlabSlice failedRun
   \<and> finish (run_slab failedRun) (run_mgr failedRun)
       = Inl (FailedToDownloadSlab 0 0 1 2 [(1, ErrorString ''timeout'')])"
  using finish_after_run [OF completedRun_reachable] finish_after_run [OF failedRun_reachable]
    completedRun_reachable failedRun_reachable
  by (simp add: exampleSlabSlice_def completedRun_def failedRun_def finish_def
      exampleSlabDownload_def numDownloaders_def launchedManager_def runningManager_def
      fail_def exampleRequest_def)

end
